theory Spec2Isabelle
  imports Main
begin

section \<open>Data model of the time-auction server\<close>

text \<open>
  The server keeps one JavaScript object per room (\<open>games[roomId]\<close>) and one object per
  player. Player objects are shared: \<open>game.players\<close> and \<open>game.activePlayersInRound\<close>
  hold references to the same objects, and a player who has left the room is still
  referenced by \<open>activePlayersInRound\<close>. The model therefore keeps the player objects in
  an explicit store (\<open>heap\<close>), and both arrays are lists of references into it.

  The modelled program is the latest revision of \<open>index.js\<close> (the one with
  \<open>isEliminated\<close>). Numbers are integers (the data model counts whole seconds), the
  five status strings are a datatype, and the message texts are a datatype with one
  constructor per message template.
\<close>

type_synonym sock = string
type_synonym ref = nat

record player =
  id_sock :: sock
  name :: string
  time :: int
  tokens :: int
  isHoldingButton :: bool
  hasOptedOut :: bool
  roundHoldDuration :: int
  isEliminated :: bool

datatype status = Waiting | PreCountdown | InRound | RoundEnded | GameOver

text \<open>The reason strings handed to \<open>gameEnded\<close>, in the order they occur in the source.\<close>

datatype reason =
    SoleSurvivor string
  | AllEliminated
  | RoundsExhausted
  | InsufficientPlayers

text \<open>The message templates of \<open>broadcastMessage\<close>.\<close>

datatype msg =
    RoundPrepare int
  | AllHoldingCountdown int
  | TimeUpEliminated string
  | NoOneContested
  | BiddingStarts
  | TimeRanOutEliminated string
  | NoParticipation
  | RoundWon string
  | RoundTied "string list"
  | CountdownInterrupted
  | CannotHold
  | GaveUpRound

text \<open>
  The \<open>finalWinner\<close> object of the game-over event: a single winner
  (\<open>isTie: false\<close> with name, id, tokens, time), a tie (\<open>isTie: true\<close> with the names and
  the players' data), or the placeholder object the source builds when nobody is alive
  (\<open>isTie: false\<close>, a fixed name, \<open>id: null\<close>, zero tokens and time).
\<close>

datatype final_winner =
    SingleWinner string sock int int
  | TiedWinners "string list" "(sock \<times> string \<times> int \<times> int) list"
  | NoWinner

datatype dest = ToRoom | ToSocket sock

text \<open>Everything the server emits through socket.io, in emission order.\<close>

datatype emission =
    PlayerStatusUpdate "player list" int int status
  | Message dest msg
  | RoundEndedEvent msg "player list" int int
  | ShowRoundStatsModal
  | PreRoundCountdownUpdate dest int
  | RoundStarting dest
  | RoundTimerUpdate dest int
  | RoundWinnerAnnounced msg "(sock \<times> string) list" int bool
  | GameOverEvent dest "reason option" "player list" "final_winner option"

text \<open>
  The room object. The first nine fields are the fields of \<open>games[roomId]\<close>; a timer
  handle is modelled by its truthiness, \<open>False\<close> for \<open>null\<close> and \<open>True\<close> for the
  handle of a live interval (every \<open>clearInterval\<close> of the source is followed by the
  assignment of \<open>null\<close>, so a stored handle is always the handle of a live interval).
  The last six fields are the environment the handlers act on: the object store, the next
  free reference, the number of \<open>setTimeout(() => startNewRound(roomId), ...)\<close> callbacks
  that are scheduled and have not fired yet, the numbers of live countdown and bidding
  intervals whose handle the room has lost, and the emitted events. A handle is lost when
  \<open>setInterval\<close> assigns a new handle to a field that still holds the handle of a live
  interval: \<open>clearInterval\<close> is only ever called on the stored handle, so the interval
  of the overwritten handle keeps firing and nothing can cancel it.
\<close>

record game =
  players :: "ref list"
  status :: status
  currentRound :: int
  maxRounds :: int
  preRoundCountdown :: int
  preRoundIntervalId :: bool
  roundElapsedTime :: int
  roundTimerIntervalId :: bool
  activePlayersInRound :: "ref list"
  heap :: "ref \<Rightarrow> player"
  nextRef :: ref
  timeouts :: nat
  lostCountdownIntervals :: nat
  lostRoundIntervals :: nat
  outbox :: "emission list"

section \<open>Helper functions\<close>

definition emit :: "emission \<Rightarrow> game \<Rightarrow> game" where
  "emit e g = g\<lparr>outbox := outbox g @ [e]\<rparr>"

definition modify :: "ref \<Rightarrow> (player \<Rightarrow> player) \<Rightarrow> game \<Rightarrow> game" where
  "modify r f g = g\<lparr>heap := (heap g)(r := f (heap g r))\<rparr>"

definition alivePlayers :: "game \<Rightarrow> ref list" where
  "alivePlayers g = filter (\<lambda>r. \<not> isEliminated (heap g r)) (players g)"

definition clearGameIntervals :: "game \<Rightarrow> game" where
  "clearGameIntervals g =
     (let g1 = (if preRoundIntervalId g then g\<lparr>preRoundIntervalId := False\<rparr> else g)
      in if roundTimerIntervalId g1 then g1\<lparr>roundTimerIntervalId := False\<rparr> else g1)"

definition broadcastPlayerStatusUpdate :: "game \<Rightarrow> game" where
  "broadcastPlayerStatusUpdate g =
     emit (PlayerStatusUpdate (map (heap g) (players g)) (currentRound g) (maxRounds g) (status g)) g"

definition broadcastMessage :: "dest \<Rightarrow> msg \<Rightarrow> game \<Rightarrow> game" where
  "broadcastMessage d m g = emit (Message d m) g"

section \<open>Game over\<close>

text \<open>
  The comparator of \<open>gameEnded\<close>: more tokens first, then more time first. The sort is
  the stable sort of the JavaScript runtime, modelled as a stable insertion sort.
\<close>

definition compareFinal :: "player \<Rightarrow> player \<Rightarrow> int" where
  "compareFinal a b = (if tokens b \<noteq> tokens a then tokens b - tokens a else time b - time a)"

fun insort_by :: "('a \<Rightarrow> 'a \<Rightarrow> int) \<Rightarrow> 'a \<Rightarrow> 'a list \<Rightarrow> 'a list" where
  "insort_by c x [] = [x]"
| "insort_by c x (y # ys) = (if c x y \<le> 0 then x # y # ys else y # insort_by c x ys)"

definition sort_by :: "('a \<Rightarrow> 'a \<Rightarrow> int) \<Rightarrow> 'a list \<Rightarrow> 'a list" where
  "sort_by c xs = foldr (insort_by c) xs []"

definition sortedAlive :: "(ref \<Rightarrow> player) \<Rightarrow> ref list \<Rightarrow> ref list" where
  "sortedAlive h alive = sort_by (\<lambda>a b. compareFinal (h a) (h b)) alive"

definition finalWinnerOf :: "(ref \<Rightarrow> player) \<Rightarrow> ref list \<Rightarrow> final_winner" where
  "finalWinnerOf h ps =
     (let alive = filter (\<lambda>r. \<not> isEliminated (h r)) ps in
      if length alive > 0 then
        (let sortedPlayers = sortedAlive h alive;
             topPlayer = h (hd sortedPlayers);
             coWinners = filter (\<lambda>r. tokens (h r) = tokens topPlayer \<and> time (h r) = time topPlayer)
                           sortedPlayers
         in if length coWinners > 1 then
              TiedWinners (map (\<lambda>r. name (h r)) coWinners)
                (map (\<lambda>r. (id_sock (h r), name (h r), tokens (h r), time (h r))) coWinners)
            else SingleWinner (name topPlayer) (id_sock topPlayer) (tokens topPlayer) (time topPlayer))
      else NoWinner)"

definition gameEnded :: "reason \<Rightarrow> game \<Rightarrow> game" where
  "gameEnded why g =
     (let g1 = clearGameIntervals (g\<lparr>status := GameOver\<rparr>)
      in emit (GameOverEvent ToRoom (Some why) (map (heap g1) (players g1)) (Some (finalWinnerOf (heap g1) (players g1)))) g1)"

section \<open>Round flow\<close>

definition resetForRound :: "player \<Rightarrow> player" where
  "resetForRound p = p\<lparr>isHoldingButton := False, hasOptedOut := False, roundHoldDuration := 0\<rparr>"

definition beginNextRound :: "game \<Rightarrow> game" where
  "beginNextRound g =
     (let g1 = g\<lparr>currentRound := currentRound g + 1, preRoundCountdown := 0,
                  roundElapsedTime := 0, status := Waiting\<rparr>;
          g2 = fold (\<lambda>r. modify r resetForRound) (players g1) g1;
          g3 = broadcastPlayerStatusUpdate g2;
          g4 = broadcastMessage ToRoom (RoundPrepare (currentRound g3)) g3;
          g5 = emit (RoundEndedEvent (RoundPrepare (currentRound g4)) (map (heap g4) (players g4))
                       (currentRound g4) (maxRounds g4)) g4
      in if currentRound g5 > 0 \<and> currentRound g5 mod 3 = 0 \<and> currentRound g5 \<noteq> maxRounds g5
         then emit ShowRoundStatsModal g5 else g5)"

definition startNewRound :: "game \<Rightarrow> game" where
  "startNewRound g =
     (let alive = alivePlayers g in
      if length alive \<le> 1 \<and> currentRound g > 0 then
        gameEnded (if length alive = 1 then SoleSurvivor (name (heap g (hd alive))) else AllEliminated) g
      else if currentRound g \<ge> maxRounds g then gameEnded RoundsExhausted g
      else beginNextRound g)"

definition resetForCountdown :: "player \<Rightarrow> player" where
  "resetForCountdown p = p\<lparr>hasOptedOut := False, roundHoldDuration := 0\<rparr>"

definition shouldStartCountdown :: "game \<Rightarrow> bool" where
  "shouldStartCountdown g =
     (let alive = alivePlayers g;
          playerCount = length alive;
          allPlayersHolding = list_all (\<lambda>r. isHoldingButton (heap g r)) alive
      in if playerCount = 1 then allPlayersHolding else playerCount \<ge> 2 \<and> allPlayersHolding)"

definition armCountdown :: "game \<Rightarrow> game" where
  "armCountdown g =
     (let g1 = g\<lparr>status := PreCountdown, preRoundCountdown := 5\<rparr>;
          g2 = fold (\<lambda>r. modify r resetForCountdown) (players g1) g1;
          g3 = broadcastPlayerStatusUpdate g2;
          g4 = emit (PreRoundCountdownUpdate ToRoom (preRoundCountdown g3)) g3;
          g5 = broadcastMessage ToRoom (AllHoldingCountdown (preRoundCountdown g4)) g4
      in g5\<lparr>lostCountdownIntervals :=
                (if preRoundIntervalId g5 then lostCountdownIntervals g5 + 1
                 else lostCountdownIntervals g5),
              preRoundIntervalId := True\<rparr>)"

definition startPreRoundCountdown :: "game \<Rightarrow> game" where
  "startPreRoundCountdown g =
     (if status g = PreCountdown \<or> status g = InRound then g
      else if \<not> shouldStartCountdown g then g
      else armCountdown g)"

subsection \<open>Round resolution\<close>

definition scanWinner :: "(ref \<Rightarrow> player) \<Rightarrow> ref \<Rightarrow> int \<times> ref list \<Rightarrow> int \<times> ref list" where
  "scanWinner h r acc =
     (let p = h r; maxHoldDuration = fst acc; winningPlayers = snd acc in
      if \<not> isEliminated p \<and> \<not> hasOptedOut p then
        (if roundHoldDuration p > maxHoldDuration then (roundHoldDuration p, [r])
         else if roundHoldDuration p = maxHoldDuration then (maxHoldDuration, winningPlayers @ [r])
         else acc)
      else acc)"

definition award :: "int \<Rightarrow> player \<Rightarrow> player" where
  "award maxHoldDuration p = p\<lparr>tokens := tokens p + 1, time := time p - maxHoldDuration\<rparr>"

definition releaseAll :: "player \<Rightarrow> player" where
  "releaseAll p = p\<lparr>isHoldingButton := False, hasOptedOut := False\<rparr>"

text \<open>
  The loop of \<open>endRoundOnServer\<close> over \<open>activePlayersInRound\<close>, which computes
  \<open>maxHoldDuration\<close> and \<open>winningPlayers\<close>, the announcement text, and the award branch.
\<close>

definition roundScan :: "game \<Rightarrow> int \<times> ref list" where
  "roundScan g = fold (scanWinner (heap g)) (activePlayersInRound g) (0, [])"

definition roundAnnouncement :: "game \<Rightarrow> int \<Rightarrow> ref list \<Rightarrow> msg" where
  "roundAnnouncement g maxHoldDuration winningPlayers =
     (if maxHoldDuration = 0 \<or> length winningPlayers = 0 then NoParticipation
      else if length winningPlayers = 1 then RoundWon (name (heap g (hd winningPlayers)))
      else RoundTied (map (\<lambda>r. name (heap g r)) winningPlayers))"

definition awardWinners :: "int \<Rightarrow> ref list \<Rightarrow> game \<Rightarrow> game" where
  "awardWinners maxHoldDuration winningPlayers g =
     (if maxHoldDuration = 0 \<or> length winningPlayers = 0 then g
      else if length winningPlayers = 1 then modify (hd winningPlayers) (award maxHoldDuration) g
      else fold (\<lambda>r. modify r (award maxHoldDuration)) winningPlayers g)"

definition endRoundOnServer :: "game \<Rightarrow> game" where
  "endRoundOnServer g =
     (let g1 = g\<lparr>status := RoundEnded\<rparr>;
          maxHoldDuration = fst (roundScan g1);
          winningPlayers = snd (roundScan g1);
          announcement = roundAnnouncement g1 maxHoldDuration winningPlayers;
          g2 = awardWinners maxHoldDuration winningPlayers g1;
          g3 = broadcastMessage ToRoom announcement g2;
          g4 = emit (RoundWinnerAnnounced announcement
                       (map (\<lambda>r. (id_sock (heap g3 r), name (heap g3 r))) winningPlayers)
                       maxHoldDuration (length winningPlayers > 1)) g3;
          g5 = fold (\<lambda>r. modify r releaseAll) (players g4) g4;
          g6 = broadcastPlayerStatusUpdate g5
      in g6\<lparr>timeouts := timeouts g6 + 1\<rparr>)"

definition released :: "game \<Rightarrow> ref \<Rightarrow> bool" where
  "released g r =
     (case find (\<lambda>gp. id_sock (heap g gp) = id_sock (heap g r)) (players g) of
        None \<Rightarrow> True
      | Some c \<Rightarrow> \<not> isHoldingButton (heap g c) \<or> hasOptedOut (heap g c) \<or> isEliminated (heap g c))"

definition checkAllReleasedOnServer :: "game \<Rightarrow> game" where
  "checkAllReleasedOnServer g =
     (if status g \<noteq> InRound then g
      else if list_all (released g) (activePlayersInRound g)
           then endRoundOnServer (clearGameIntervals g)
           else g)"

subsection \<open>End of the countdown and the bidding timer\<close>

definition preRoundEndPlayer :: "ref \<Rightarrow> game \<Rightarrow> game" where
  "preRoundEndPlayer r g =
     (let p = heap g r in
      if time p \<le> 0 \<and> \<not> hasOptedOut p \<and> \<not> isEliminated p then
        broadcastMessage ToRoom (TimeUpEliminated (name p))
          (modify r (\<lambda>p. p\<lparr>hasOptedOut := True, isEliminated := True\<rparr>) g)
      else if \<not> isHoldingButton p \<and> \<not> hasOptedOut p \<and> \<not> isEliminated p then
        modify r (\<lambda>p. p\<lparr>hasOptedOut := True\<rparr>) g
      else g)"

definition handlePreRoundEndOnServer :: "game \<Rightarrow> game" where
  "handlePreRoundEndOnServer g =
     (let g1 = fold preRoundEndPlayer (players g) g;
          g2 = g1\<lparr>activePlayersInRound :=
                    filter (\<lambda>r. isHoldingButton (heap g1 r) \<and> \<not> hasOptedOut (heap g1 r)
                                 \<and> \<not> isEliminated (heap g1 r)) (players g1)\<rparr>
      in if length (activePlayersInRound g2) < 1 then
           (let g3 = broadcastMessage ToRoom NoOneContested g2 in g3\<lparr>timeouts := timeouts g3 + 1\<rparr>)
         else
           (let g3 = g2\<lparr>status := InRound, roundElapsedTime := 0\<rparr>;
                g4 = broadcastMessage ToRoom BiddingStarts g3;
                g5 = emit (RoundStarting ToRoom) g4
            in g5\<lparr>lostRoundIntervals :=
                      (if roundTimerIntervalId g5 then lostRoundIntervals g5 + 1
                       else lostRoundIntervals g5),
                    roundTimerIntervalId := True\<rparr>))"

text \<open>The callback of the countdown interval (one call per second while it is live).\<close>

definition countdownTick :: "game \<Rightarrow> game" where
  "countdownTick g =
     (let g1 = g\<lparr>preRoundCountdown := preRoundCountdown g - 1\<rparr>;
          g2 = emit (PreRoundCountdownUpdate ToRoom (preRoundCountdown g1)) g1
      in if preRoundCountdown g2 \<le> 0
         then handlePreRoundEndOnServer (g2\<lparr>preRoundIntervalId := False\<rparr>)
         else g2)"

text \<open>
  The body of the bidding interval's loop over the players; the second component is the
  local flag \<open>somePlayerStatusChanged\<close>.
\<close>

definition forceRelease :: "player \<Rightarrow> player" where
  "forceRelease p = p\<lparr>isHoldingButton := False, roundHoldDuration := time p,
                       hasOptedOut := True, isEliminated := True\<rparr>"

definition tickPlayer :: "ref \<Rightarrow> game \<times> bool \<Rightarrow> game \<times> bool" where
  "tickPlayer r gc =
     (let g = fst gc; p = heap g r in
      if isHoldingButton p \<and> \<not> hasOptedOut p \<and> \<not> isEliminated p then
        (let g1 = modify r (\<lambda>p. p\<lparr>roundHoldDuration := roundHoldDuration p + 1\<rparr>) g;
             p1 = heap g1 r
         in if time p1 - roundHoldDuration p1 \<le> 0 then
              (broadcastMessage ToRoom (TimeRanOutEliminated (name p1)) (modify r forceRelease g1), True)
            else (g1, snd gc))
      else gc)"

definition tickUpdates :: "game \<Rightarrow> game" where
  "tickUpdates g =
     (let g1 = g\<lparr>roundElapsedTime := roundElapsedTime g + 1\<rparr>;
          looped = fold tickPlayer (players g1) (g1, False);
          g2 = fst looped;
          g3 = (if snd looped then broadcastPlayerStatusUpdate g2 else g2)
      in emit (RoundTimerUpdate ToRoom (roundElapsedTime g3)) g3)"

text \<open>The callback of the bidding interval (one call per second while it is live).\<close>

definition roundTick :: "game \<Rightarrow> game" where
  "roundTick g = checkAllReleasedOnServer (tickUpdates g)"

section \<open>Socket event handlers\<close>

definition blank :: player where
  "blank = \<lparr>id_sock = [], name = [], time = 0, tokens = 0, isHoldingButton = False,
             hasOptedOut = False, roundHoldDuration = 0, isEliminated = False\<rparr>"

definition newPlayer :: "sock \<Rightarrow> string \<Rightarrow> int \<Rightarrow> player" where
  "newPlayer s n t = \<lparr>id_sock = s, name = n, time = t, tokens = 0, isHoldingButton = False,
                       hasOptedOut = False, roundHoldDuration = 0, isEliminated = False\<rparr>"

text \<open>
  \<open>createRoom\<close>: \<open>None\<close> is the rejection of an invalid configuration; otherwise the room
  is built around its first player and \<open>startNewRound\<close> prepares round 1.
\<close>

definition createRoom :: "sock \<Rightarrow> string \<Rightarrow> int \<Rightarrow> int \<Rightarrow> game option" where
  "createRoom s playerName initialTime rounds =
     (if initialTime < 10 \<or> initialTime > 600 then None
      else if rounds < 1 \<or> rounds > 50 then None
      else Some (startNewRound
        \<lparr>players = [0], status = Waiting, currentRound = 0, maxRounds = rounds,
          preRoundCountdown = 0, preRoundIntervalId = False, roundElapsedTime = 0,
          roundTimerIntervalId = False, activePlayersInRound = [],
          heap = (\<lambda>r. blank)(0 := newPlayer s playerName initialTime), nextRef = 1,
          timeouts = 0, lostCountdownIntervals = 0,
          lostRoundIntervals = 0, outbox = []\<rparr>))"

text \<open>
  \<open>joinRoom\<close> takes the result of the lookup \<open>games[roomId]\<close>. The reply is what the
  callback receives; \<open>TypeError\<close> is the exception of reading \<open>game.players[0].time\<close> in a
  room without players, thrown before anything is changed.
\<close>

datatype join_error = RoomNotFound | PhaseNotJoinable | RoomFull | NameTaken

datatype reply = Failure join_error | Success player | TypeError

definition joinReplay :: "sock \<Rightarrow> game \<Rightarrow> game" where
  "joinReplay s g =
     (if status g = PreCountdown then
        broadcastMessage (ToSocket s) (AllHoldingCountdown (preRoundCountdown g))
          (emit (PreRoundCountdownUpdate (ToSocket s) (preRoundCountdown g)) g)
      else if status g = InRound then
        broadcastMessage (ToSocket s) BiddingStarts
          (emit (RoundTimerUpdate (ToSocket s) (roundElapsedTime g)) (emit (RoundStarting (ToSocket s)) g))
      else if status g = RoundEnded \<or> status g = Waiting \<or> status g = GameOver then
        (let g1 = broadcastMessage (ToSocket s) (RoundPrepare (currentRound g)) g
         in if status g1 = GameOver
            then emit (GameOverEvent (ToSocket s) None (map (heap g1) (players g1)) None) g1
            else g1)
      else g)"

definition joinRoom :: "game option \<Rightarrow> sock \<Rightarrow> string \<Rightarrow> reply \<times> game option" where
  "joinRoom room s playerName =
     (case room of
        None \<Rightarrow> (Failure RoomNotFound, room)
      | Some g \<Rightarrow>
          if status g \<noteq> Waiting \<and> status g \<noteq> RoundEnded \<and> status g \<noteq> GameOver
            then (Failure PhaseNotJoinable, room)
          else if length (players g) \<ge> 4 then (Failure RoomFull, room)
          else if list_ex (\<lambda>r. name (heap g r) = playerName) (players g) then (Failure NameTaken, room)
          else
            (case players g of
               [] \<Rightarrow> (TypeError, room)
             | first # _ \<Rightarrow>
                 (let p = newPlayer s playerName (time (heap g first));
                      g1 = g\<lparr>heap := (heap g)(nextRef g := p), nextRef := nextRef g + 1,
                              players := players g @ [nextRef g]\<rparr>;
                      g2 = broadcastPlayerStatusUpdate g1
                  in (Success p, Some (joinReplay s g2)))))"

text \<open>
  \<open>leaveRoom\<close> and \<open>disconnect\<close>: \<open>None\<close> is the deletion of the emptied room
  (\<open>delete games[roomId]\<close>).
\<close>

definition departed :: "sock \<Rightarrow> game \<Rightarrow> game option" where
  "departed s g =
     (let disconnectedPlayer = find (\<lambda>r. id_sock (heap g r) = s) (players g);
          g1 = g\<lparr>players := filter (\<lambda>r. id_sock (heap g r) \<noteq> s) (players g)\<rparr>
      in if length (players g1) = 0 then None
         else
           (let alivePlayersCount = length (alivePlayers g1);
                wasHolding = (case disconnectedPlayer of None \<Rightarrow> False
                              | Some r \<Rightarrow> isHoldingButton (heap g1 r));
                g2 =
                  (if (status g1 = PreCountdown \<or> status g1 = InRound) \<and> alivePlayersCount < 2 then
                     gameEnded InsufficientPlayers g1
                   else if status g1 = PreCountdown \<and> wasHolding \<and> preRoundIntervalId g1 then
                     (let g3 = g1\<lparr>preRoundIntervalId := False, status := Waiting\<rparr>;
                          g4 = broadcastMessage ToRoom CountdownInterrupted g3;
                          allAliveHolding = list_all (\<lambda>r. isHoldingButton (heap g4 r)) (alivePlayers g4)
                      in if allAliveHolding then startPreRoundCountdown g4
                         else g4\<lparr>timeouts := timeouts g4 + 1\<rparr>)
                   else if status g1 = InRound \<and> wasHolding then checkAllReleasedOnServer g1
                   else g1)
            in Some (broadcastPlayerStatusUpdate g2)))"

definition leaveRoom :: "sock \<Rightarrow> game \<Rightarrow> game option" where
  "leaveRoom s g = departed s g"

definition disconnect :: "sock \<Rightarrow> game \<Rightarrow> game option" where
  "disconnect s g = departed s g"

definition playerHolding :: "sock \<Rightarrow> game \<Rightarrow> game" where
  "playerHolding s g =
     (case find (\<lambda>r. id_sock (heap g r) = s) (players g) of
        None \<Rightarrow> g
      | Some r \<Rightarrow>
          if time (heap g r) \<le> 0 \<or> isEliminated (heap g r) then
            broadcastMessage (ToSocket s) CannotHold g
          else if \<not> isHoldingButton (heap g r) then
            (let g1 = broadcastPlayerStatusUpdate (modify r (\<lambda>p. p\<lparr>isHoldingButton := True\<rparr>) g);
                 alive = alivePlayers g1;
                 playerCount = length alive;
                 allPlayersHolding = list_all (\<lambda>r. isHoldingButton (heap g1 r)) alive
             in if status g1 = Waiting \<or> status g1 = RoundEnded then
                  (if playerCount = 1 then
                     (if allPlayersHolding \<and> \<not> preRoundIntervalId g1
                      then startPreRoundCountdown g1 else g1)
                   else
                     (if playerCount \<ge> 2 \<and> allPlayersHolding \<and> \<not> preRoundIntervalId g1
                      then startPreRoundCountdown g1 else g1))
                else g1)
          else g)"

text \<open>
  \<open>playerReleased\<close>: \<open>None\<close> is the \<open>TypeError\<close> of the final log line, which reads
  \<open>player.name\<close> although no player was found.
\<close>

definition playerReleased :: "sock \<Rightarrow> game \<Rightarrow> game option" where
  "playerReleased s g =
     (case find (\<lambda>r. id_sock (heap g r) = s) (players g) of
        None \<Rightarrow> None
      | Some r \<Rightarrow>
          if isHoldingButton (heap g r) then
            (let g1 = modify r (\<lambda>p. p\<lparr>isHoldingButton := False\<rparr>) g
             in if status g1 = PreCountdown \<and> preRoundIntervalId g1 then
                  Some (broadcastMessage (ToSocket s) GaveUpRound
                          (broadcastPlayerStatusUpdate (modify r (\<lambda>p. p\<lparr>hasOptedOut := True\<rparr>) g1)))
                else
                  (let g2 = broadcastPlayerStatusUpdate g1
                   in if status g2 = InRound then Some (checkAllReleasedOnServer g2) else Some g2))
          else Some g)"

section \<open>The room as a transition system\<close>

text \<open>
  One event is one run-to-completion callback of the single-threaded runtime: a socket
  event of some connection, a tick of one of the two intervals, or the firing of a
  scheduled \<open>startNewRound\<close>. A tick can only occur while an interval of its kind is
  live, which is the interval of the stored handle or one whose handle was lost; the
  callbacks of all intervals of one kind are the same closure over the room. A timeout
  can only occur while one is scheduled.
\<close>

datatype event =
    JoinRoom sock string
  | LeaveRoom sock
  | Disconnect sock
  | PlayerHolding sock
  | PlayerReleased sock
  | CountdownTick
  | RoundTick
  | StartNewRoundTimeout

fun enabled :: "event \<Rightarrow> game \<Rightarrow> bool" where
  "enabled CountdownTick g = (preRoundIntervalId g \<or> lostCountdownIntervals g > 0)"
| "enabled RoundTick g = (roundTimerIntervalId g \<or> lostRoundIntervals g > 0)"
| "enabled StartNewRoundTimeout g = (timeouts g > 0)"
| "enabled _ g = True"

text \<open>The handler of an event; \<open>None\<close> when the room is deleted or the handler throws.\<close>

fun handle :: "event \<Rightarrow> game \<Rightarrow> game option" where
  "handle (JoinRoom s n) g = (case joinRoom (Some g) s n of (TypeError, _) \<Rightarrow> None | (_, room) \<Rightarrow> room)"
| "handle (LeaveRoom s) g = leaveRoom s g"
| "handle (Disconnect s) g = disconnect s g"
| "handle (PlayerHolding s) g = Some (playerHolding s g)"
| "handle (PlayerReleased s) g = playerReleased s g"
| "handle CountdownTick g = Some (countdownTick g)"
| "handle RoundTick g = Some (roundTick g)"
| "handle StartNewRoundTimeout g = Some (startNewRound (g\<lparr>timeouts := timeouts g - 1\<rparr>))"

fun run :: "event list \<Rightarrow> game \<Rightarrow> game option" where
  "run [] g = Some g"
| "run (e # es) g =
     (if enabled e g then (case handle e g of None \<Rightarrow> None | Some g' \<Rightarrow> run es g') else None)"


section \<open>Properties used in the statements\<close>

text \<open>
  \<open>endsGame why g g'\<close>: \<open>g'\<close> is \<open>g\<close> after the game has ended for the reason \<open>why\<close>: the
  phase is \<open>GameOver\<close>, both timers are cancelled, a game-over event with that reason, the
  standings of all players of the room and the final winner has been broadcast, and
  nothing else has changed (no player object, no round number, no scheduled timeout).
\<close>

definition endsGame :: "reason \<Rightarrow> game \<Rightarrow> game \<Rightarrow> bool" where
  "endsGame why g g' =
     (status g' = GameOver \<and> \<not> preRoundIntervalId g' \<and> \<not> roundTimerIntervalId g' \<and>
      players g' = players g \<and> heap g' = heap g \<and> currentRound g' = currentRound g \<and>
      timeouts g' = timeouts g \<and>
      outbox g' = outbox g @
        [GameOverEvent ToRoom (Some why) (map (heap g) (players g))
           (Some (finalWinnerOf (heap g) (players g)))])"

section \<open>Sample rooms for the witnesses\<close>

text \<open>
  A room of two players between two rounds: \<open>A\<close> has won round 1 with a hold of 7
  seconds, the next round is scheduled.
\<close>

definition playerA :: player where
  "playerA = \<lparr>id_sock = ''a'', name = ''A'', time = 53, tokens = 1, isHoldingButton = False,
               hasOptedOut = False, roundHoldDuration = 7, isEliminated = False\<rparr>"

definition playerB :: player where
  "playerB = \<lparr>id_sock = ''b'', name = ''B'', time = 60, tokens = 0, isHoldingButton = False,
               hasOptedOut = False, roundHoldDuration = 4, isEliminated = False\<rparr>"

definition roomAB :: game where
  "roomAB = \<lparr>players = [0, 1], status = RoundEnded, currentRound = 1, maxRounds = 3,
              preRoundCountdown = 0, preRoundIntervalId = False, roundElapsedTime = 7,
              roundTimerIntervalId = False, activePlayersInRound = [0, 1],
              heap = (\<lambda>r. blank)(0 := playerA, 1 := playerB), nextRef = 2,
              timeouts = 1, lostCountdownIntervals = 0,
          lostRoundIntervals = 0, outbox = []\<rparr>"

text \<open>
  The join conditions in the words of the specification: the room exists, its phase is
  \<open>Waiting\<close>, \<open>RoundEnded\<close> or \<open>GameOver\<close>, it has fewer than 4 players, and no player of
  the room has the requested name (an exact, case-sensitive comparison).
\<close>

definition joinable :: "game option \<Rightarrow> string \<Rightarrow> bool" where
  "joinable room playerName =
     (case room of
        None \<Rightarrow> False
      | Some g \<Rightarrow> (status g = Waiting \<or> status g = RoundEnded \<or> status g = GameOver) \<and>
                  length (players g) < 4 \<and>
                  playerName \<notin> set (map (\<lambda>r. name (heap g r)) (players g)))"

text \<open>A room that is registered has at least one player (an emptied room is deleted).\<close>

definition occupied :: "game option \<Rightarrow> bool" where
  "occupied room = (case room of None \<Rightarrow> True | Some g \<Rightarrow> players g \<noteq> [])"

text \<open>
  \<open>play\<close> creates a room and delivers a sequence of events to it; \<open>standings\<close> is the
  player list as the broadcasts show it.
\<close>

definition play :: "sock \<Rightarrow> string \<Rightarrow> int \<Rightarrow> int \<Rightarrow> event list \<Rightarrow> game option" where
  "play s n t m es = (case createRoom s n t m of None \<Rightarrow> None | Some g \<Rightarrow> run es g)"

definition standings :: "game \<Rightarrow> player list" where
  "standings g = map (heap g) (players g)"

section \<open>What the loops do to one player\<close>

text \<open>
  The effect of the loop body of \<open>handlePreRoundEndOnServer\<close> and of the bidding tick on
  the visited player object.
\<close>

definition optOutAtEnd :: "player \<Rightarrow> player" where
  "optOutAtEnd p =
     (if time p \<le> 0 \<and> \<not> hasOptedOut p \<and> \<not> isEliminated p
        then p\<lparr>hasOptedOut := True, isEliminated := True\<rparr>
      else if \<not> isHoldingButton p \<and> \<not> hasOptedOut p \<and> \<not> isEliminated p
        then p\<lparr>hasOptedOut := True\<rparr>
      else p)"

definition tickEffect :: "player \<Rightarrow> player" where
  "tickEffect p =
     (if isHoldingButton p \<and> \<not> hasOptedOut p \<and> \<not> isEliminated p then
        (if time p - (roundHoldDuration p + 1) \<le> 0
         then forceRelease (p\<lparr>roundHoldDuration := roundHoldDuration p + 1\<rparr>)
         else p\<lparr>roundHoldDuration := roundHoldDuration p + 1\<rparr>)
      else p)"

section \<open>Well-formed rooms\<close>

text \<open>
  The invariant of the room: the room has a player, its player references are allocated
  and pairwise distinct, no reference occurs twice in \<open>activePlayersInRound\<close>, a player who
  is not eliminated has a non-negative round hold duration, and a player of the room who
  is eliminated is not holding while one who is holding has time left.
\<close>

definition durOk :: "player \<Rightarrow> bool" where
  "durOk p = (\<not> isEliminated p \<longrightarrow> 0 \<le> roundHoldDuration p)"

definition holdOk :: "player \<Rightarrow> bool" where
  "holdOk p = ((isEliminated p \<longrightarrow> \<not> isHoldingButton p) \<and> (isHoldingButton p \<longrightarrow> 0 < time p))"

definition wf :: "game \<Rightarrow> bool" where
  "wf g = (players g \<noteq> [] \<and> (\<forall>r \<in> set (players g). r < nextRef g) \<and> distinct (players g) \<and>
           distinct (activePlayersInRound g) \<and> (\<forall>r. durOk (heap g r)) \<and>
           (\<forall>r \<in> set (players g). holdOk (heap g r)))"

section \<open>Round resolution in the words of the specification\<close>

text \<open>
  The players who can win a round are the members of \<open>activePlayersInRound\<close> that are
  neither opted out nor eliminated; the winning duration is the maximum of their round hold
  durations (0 when there is none), and the winners are those who achieve it.
\<close>

definition eligible :: "game \<Rightarrow> ref \<Rightarrow> bool" where
  "eligible g r = (\<not> hasOptedOut (heap g r) \<and> \<not> isEliminated (heap g r))"

definition contenders :: "game \<Rightarrow> ref list" where
  "contenders g = filter (eligible g) (activePlayersInRound g)"

definition maxDuration :: "game \<Rightarrow> int" where
  "maxDuration g =
     (if contenders g = [] then 0
      else Max (set (map (\<lambda>r. roundHoldDuration (heap g r)) (contenders g))))"

definition roundWinners :: "game \<Rightarrow> ref list" where
  "roundWinners g = filter (\<lambda>r. roundHoldDuration (heap g r) = maxDuration g) (contenders g)"

definition awarded :: "game \<Rightarrow> ref set" where
  "awarded g = (if maxDuration g = 0 then {} else set (roundWinners g))"

text \<open>
  A room in the bidding phase whose two active players have released after 4 and after 7
  seconds.
\<close>

definition playerX :: player where
  "playerX = \<lparr>id_sock = ''x'', name = ''X'', time = 60, tokens = 0, isHoldingButton = False,
               hasOptedOut = False, roundHoldDuration = 4, isEliminated = False\<rparr>"

definition playerY :: player where
  "playerY = \<lparr>id_sock = ''y'', name = ''Y'', time = 60, tokens = 0, isHoldingButton = False,
               hasOptedOut = False, roundHoldDuration = 7, isEliminated = False\<rparr>"

definition roomXY :: game where
  "roomXY = \<lparr>players = [0, 1], status = InRound, currentRound = 1, maxRounds = 3,
              preRoundCountdown = 0, preRoundIntervalId = False, roundElapsedTime = 7,
              roundTimerIntervalId = False, activePlayersInRound = [0, 1],
              heap = (\<lambda>r. blank)(0 := playerX, 1 := playerY), nextRef = 2,
              timeouts = 0, lostCountdownIntervals = 0,
          lostRoundIntervals = 0, outbox = []\<rparr>"


definition afterLastTick :: game where
  "afterLastTick =
     the (play ''a'' ''A'' 10 1 (PlayerHolding ''a'' # replicate 5 CountdownTick @ replicate 10 RoundTick))"

text \<open>The players that stay in the room when the connection \<open>s\<close> leaves or disconnects.\<close>

definition remaining :: "sock \<Rightarrow> game \<Rightarrow> ref list" where
  "remaining s g = filter (\<lambda>r. id_sock (heap g r) \<noteq> s) (players g)"

section \<open>Arming the countdown in the words of the specification\<close>

text \<open>
  The arming condition over \<open>alive\<close>, the players of the room whose \<open>isEliminated\<close> is
  false: with exactly one of them, that player is holding; with two or more, every one of
  them is holding; with none it is false. A hold action takes effect when the caller is a
  player of the room who has time left, is not eliminated and is not holding yet;
  \<open>withHold\<close> is the room with the caller's holding flag set.
\<close>

definition armingCondition :: "game \<Rightarrow> bool" where
  "armingCondition g =
     (let alive = filter (\<lambda>r. \<not> isEliminated (heap g r)) (players g) in
      (length alive = 1 \<and> isHoldingButton (heap g (hd alive))) \<or>
      (length alive \<ge> 2 \<and> (\<forall>r \<in> set alive. isHoldingButton (heap g r))))"

definition takesEffect :: "sock \<Rightarrow> game \<Rightarrow> bool" where
  "takesEffect s g =
     (case find (\<lambda>r. id_sock (heap g r) = s) (players g) of
        None \<Rightarrow> False
      | Some r \<Rightarrow> 0 < time (heap g r) \<and> \<not> isEliminated (heap g r) \<and> \<not> isHoldingButton (heap g r))"

definition withHold :: "sock \<Rightarrow> game \<Rightarrow> game" where
  "withHold s g =
     (case find (\<lambda>r. id_sock (heap g r) = s) (players g) of
        None \<Rightarrow> g
      | Some r \<Rightarrow> modify r (\<lambda>p. p\<lparr>isHoldingButton := True\<rparr>) g)"

text \<open>What the arming examples observe of a room: phase, countdown timer, arming condition.\<close>

definition armingView :: "game \<Rightarrow> status \<times> bool \<times> bool" where
  "armingView g = (status g, preRoundIntervalId g, armingCondition g)"

section \<open>The final ranking in the words of the specification\<close>

text \<open>
  \<open>ranksAtLeast p q\<close>: in the order by tokens descending, then time descending, \<open>p\<close> does
  not come after \<open>q\<close>. \<open>topPlayer g\<close> is \<open>sortedPlayers[0]\<close> of \<open>gameEnded\<close>, and \<open>tiedWithTop g\<close>
  are the non-eliminated players (in join order) that share both values with it.
\<close>

definition ranksAtLeast :: "player \<Rightarrow> player \<Rightarrow> bool" where
  "ranksAtLeast p q = (tokens q < tokens p \<or> (tokens q = tokens p \<and> time q \<le> time p))"

definition topPlayer :: "game \<Rightarrow> ref" where
  "topPlayer g = hd (sortedAlive (heap g) (alivePlayers g))"

definition tiedWithTop :: "game \<Rightarrow> ref list" where
  "tiedWithTop g =
     filter (\<lambda>r. tokens (heap g r) = tokens (heap g (topPlayer g)) \<and>
                  time (heap g r) = time (heap g (topPlayer g))) (alivePlayers g)"

text \<open>
  A room at the end of the game: \<open>P\<close> and \<open>Q\<close> share tokens and time, \<open>R\<close> has more tokens
  but is eliminated.
\<close>

definition playerP :: player where
  "playerP = \<lparr>id_sock = ''p'', name = ''P'', time = 30, tokens = 2, isHoldingButton = False,
               hasOptedOut = False, roundHoldDuration = 0, isEliminated = False\<rparr>"

definition playerQ :: player where
  "playerQ = \<lparr>id_sock = ''q'', name = ''Q'', time = 30, tokens = 2, isHoldingButton = False,
               hasOptedOut = False, roundHoldDuration = 0, isEliminated = False\<rparr>"

definition playerR :: player where
  "playerR = \<lparr>id_sock = ''r'', name = ''R'', time = 50, tokens = 3, isHoldingButton = False,
               hasOptedOut = False, roundHoldDuration = 50, isEliminated = True\<rparr>"

definition roomPQR :: game where
  "roomPQR = \<lparr>players = [0, 1, 2], status = RoundEnded, currentRound = 5, maxRounds = 5,
               preRoundCountdown = 0, preRoundIntervalId = False, roundElapsedTime = 0,
               roundTimerIntervalId = False, activePlayersInRound = [],
               heap = (\<lambda>r. blank)(0 := playerP, 1 := playerQ, 2 := playerR), nextRef = 3,
               timeouts = 0, lostCountdownIntervals = 0,
          lostRoundIntervals = 0, outbox = []\<rparr>"

text \<open>What the examples observe of a room: phase, the two timers, scheduled timeouts, players.\<close>

definition view :: "game \<Rightarrow> status \<times> bool \<times> bool \<times> nat \<times> player list" where
  "view g = (status g, preRoundIntervalId g, roundTimerIntervalId g, timeouts g, standings g)"

text \<open>
  What the timer example observes of a room: phase, the two stored handles, and the
  numbers of live intervals whose handle is lost.
\<close>

definition timers :: "game \<Rightarrow> status \<times> bool \<times> bool \<times> nat \<times> nat" where
  "timers g = (status g, preRoundIntervalId g, roundTimerIntervalId g,
               lostCountdownIntervals g, lostRoundIntervals g)"

text \<open>A single-player room whose countdown has just started.\<close>

definition countingDown :: game where
  "countingDown = the (play ''a'' ''A'' 60 3 [PlayerHolding ''a''])"

section \<open>Forfeiting a round\<close>

text \<open>
  \<open>forfeits e g r\<close>: the event \<open>e\<close>, arriving in room \<open>g\<close>, is one of the three forfeiture
  cases for the player \<open>r\<close> of the room, who has not opted out yet: the countdown ends
  (its last tick) and the player, not eliminated, is not holding or has no time left; the
  bidding tick exhausts the budget of the holding player; or the player, holding, releases
  while the countdown timer is live in phase \<open>PreCountdown\<close>.
\<close>

definition forfeits :: "event \<Rightarrow> game \<Rightarrow> ref \<Rightarrow> bool" where
  "forfeits e g r =
     (r \<in> set (players g) \<and> \<not> hasOptedOut (heap g r) \<and>
      (case e of
         CountdownTick \<Rightarrow>
           preRoundCountdown g \<le> 1 \<and> \<not> isEliminated (heap g r) \<and>
           (\<not> isHoldingButton (heap g r) \<or> time (heap g r) \<le> 0)
       | RoundTick \<Rightarrow>
           isHoldingButton (heap g r) \<and> \<not> isEliminated (heap g r) \<and>
           time (heap g r) \<le> roundHoldDuration (heap g r) + 1
       | PlayerReleased s \<Rightarrow>
           status g = PreCountdown \<and> preRoundIntervalId g \<and> isHoldingButton (heap g r) \<and>
           find (\<lambda>q. id_sock (heap g q) = s) (players g) = Some r
       | _ \<Rightarrow> False))"

text \<open>Two players in the bidding phase, both holding, after the first bidding tick.\<close>

definition bidding :: game where
  "bidding =
     the (play ''a'' ''A'' 60 3
            ([JoinRoom ''b'' ''B'', PlayerHolding ''a'', PlayerHolding ''b''] @
             replicate 5 CountdownTick @ [RoundTick]))"

text \<open>
  Rooms with an eliminated player. The budget is 10 seconds and \<open>A\<close> holds through the
  whole first round, so the tenth bidding tick eliminates \<open>A\<close> and resolves the round.
  \<open>twoWithOneOut\<close>: \<open>A\<close> and \<open>B\<close>, of whom \<open>B\<close> released at once; the room after that tick
  (phase \<open>RoundEnded\<close>, the next round is scheduled). \<open>threeWithOneOut\<close>: \<open>A\<close>, \<open>B\<close> and
  \<open>C\<close>, of whom \<open>B\<close> and \<open>C\<close> released at once; round 2 has begun and \<open>B\<close> is holding
  again.
\<close>

definition twoWithOneOut :: game where
  "twoWithOneOut =
     the (play ''a'' ''A'' 10 3
            ([JoinRoom ''b'' ''B'', PlayerHolding ''a'', PlayerHolding ''b''] @
             replicate 5 CountdownTick @ [PlayerReleased ''b''] @ replicate 10 RoundTick))"

definition threeWithOneOut :: game where
  "threeWithOneOut =
     the (play ''a'' ''A'' 10 3
            ([JoinRoom ''b'' ''B'', JoinRoom ''c'' ''C'',
              PlayerHolding ''a'', PlayerHolding ''b'', PlayerHolding ''c''] @
             replicate 5 CountdownTick @ [PlayerReleased ''b'', PlayerReleased ''c''] @
             replicate 10 RoundTick @ [StartNewRoundTimeout, PlayerHolding ''b'']))"

text \<open>
  Two players hold, \<open>B\<close> releases during the countdown (and has opted out), and the
  countdown ends: \<open>A\<close> is bidding alone.
\<close>

definition biddingAlone :: game where
  "biddingAlone =
     the (play ''a'' ''A'' 60 3
            ([JoinRoom ''b'' ''B'', PlayerHolding ''a'', PlayerHolding ''b'', PlayerReleased ''b''] @
             replicate 5 CountdownTick))"

section \<open>The sample rooms\<close>

lemma the_map_option: "map_option f x = Some y \<Longrightarrow> x = Some (the x) \<and> f (the x) = y"
  by (cases x) auto


lemma afterLastTick_facts:
  "play ''a'' ''A'' 10 1 (PlayerHolding ''a'' # replicate 5 CountdownTick @ replicate 10 RoundTick)
     = Some afterLastTick"
  "players afterLastTick = [0]" "timeouts afterLastTick = 1"
  "heap afterLastTick 0 = \<lparr>id_sock = ''a'', name = ''A'', time = 10, tokens = 0, isHoldingButton = False,
           hasOptedOut = False, roundHoldDuration = 10, isEliminated = True\<rparr>"
proof -
  have "map_option (\<lambda>g. (players g, timeouts g, heap g 0))
          (play ''a'' ''A'' 10 1 (PlayerHolding ''a'' # replicate 5 CountdownTick @ replicate 10 RoundTick)) =
        Some ([0], 1, \<lparr>id_sock = ''a'', name = ''A'', time = 10, tokens = 0, isHoldingButton = False,
           hasOptedOut = False, roundHoldDuration = 10, isEliminated = True\<rparr>)"
    by code_simp
  from the_map_option[OF this]
  show "play ''a'' ''A'' 10 1 (PlayerHolding ''a'' # replicate 5 CountdownTick @ replicate 10 RoundTick)
     = Some afterLastTick"
  "players afterLastTick = [0]" "timeouts afterLastTick = 1"
  "heap afterLastTick 0 = \<lparr>id_sock = ''a'', name = ''A'', time = 10, tokens = 0, isHoldingButton = False,
           hasOptedOut = False, roundHoldDuration = 10, isEliminated = True\<rparr>"
    by (simp_all add: afterLastTick_def)
qed


lemma twoWithOneOut_facts:
  "play ''a'' ''A'' 10 3
     ([JoinRoom ''b'' ''B'', PlayerHolding ''a'', PlayerHolding ''b''] @
      replicate 5 CountdownTick @ [PlayerReleased ''b''] @ replicate 10 RoundTick) = Some twoWithOneOut"
  "status twoWithOneOut = RoundEnded" "preRoundIntervalId twoWithOneOut = False"
  "currentRound twoWithOneOut = 1" "maxRounds twoWithOneOut = 3"
  "players twoWithOneOut = [0, Suc 0]"
  "heap twoWithOneOut 0 = \<lparr>id_sock = ''a'', name = ''A'', time = 10, tokens = 0, isHoldingButton = False,
           hasOptedOut = False, roundHoldDuration = 10, isEliminated = True\<rparr>"
  "heap twoWithOneOut (Suc 0) = \<lparr>id_sock = ''b'', name = ''B'', time = 10, tokens = 0,
           isHoldingButton = False, hasOptedOut = False, roundHoldDuration = 0, isEliminated = False\<rparr>"
proof -
  have "map_option (\<lambda>g. (status g, preRoundIntervalId g, currentRound g, maxRounds g, players g,
                          heap g 0, heap g (Suc 0)))
          (play ''a'' ''A'' 10 3
             ([JoinRoom ''b'' ''B'', PlayerHolding ''a'', PlayerHolding ''b''] @
              replicate 5 CountdownTick @ [PlayerReleased ''b''] @ replicate 10 RoundTick)) =
        Some (RoundEnded, False, 1, 3, [0, Suc 0],
          \<lparr>id_sock = ''a'', name = ''A'', time = 10, tokens = 0, isHoldingButton = False,
           hasOptedOut = False, roundHoldDuration = 10, isEliminated = True\<rparr>,
          \<lparr>id_sock = ''b'', name = ''B'', time = 10, tokens = 0,
           isHoldingButton = False, hasOptedOut = False, roundHoldDuration = 0, isEliminated = False\<rparr>)"
    by code_simp
  from the_map_option[OF this]
  show "play ''a'' ''A'' 10 3
     ([JoinRoom ''b'' ''B'', PlayerHolding ''a'', PlayerHolding ''b''] @
      replicate 5 CountdownTick @ [PlayerReleased ''b''] @ replicate 10 RoundTick) = Some twoWithOneOut"
  "status twoWithOneOut = RoundEnded" "preRoundIntervalId twoWithOneOut = False"
  "currentRound twoWithOneOut = 1" "maxRounds twoWithOneOut = 3"
  "players twoWithOneOut = [0, Suc 0]"
  "heap twoWithOneOut 0 = \<lparr>id_sock = ''a'', name = ''A'', time = 10, tokens = 0, isHoldingButton = False,
           hasOptedOut = False, roundHoldDuration = 10, isEliminated = True\<rparr>"
  "heap twoWithOneOut (Suc 0) = \<lparr>id_sock = ''b'', name = ''B'', time = 10, tokens = 0,
           isHoldingButton = False, hasOptedOut = False, roundHoldDuration = 0, isEliminated = False\<rparr>"
    by (simp_all add: twoWithOneOut_def)
qed

lemma threeWithOneOut_facts:
  "play ''a'' ''A'' 10 3
     ([JoinRoom ''b'' ''B'', JoinRoom ''c'' ''C'',
       PlayerHolding ''a'', PlayerHolding ''b'', PlayerHolding ''c''] @
      replicate 5 CountdownTick @ [PlayerReleased ''b'', PlayerReleased ''c''] @
      replicate 10 RoundTick @ [StartNewRoundTimeout, PlayerHolding ''b'']) = Some threeWithOneOut"
  "status threeWithOneOut = Waiting" "preRoundIntervalId threeWithOneOut = False"
  "currentRound threeWithOneOut = 2" "maxRounds threeWithOneOut = 3"
  "players threeWithOneOut = [0, Suc 0, 2]"
  "heap threeWithOneOut 0 = \<lparr>id_sock = ''a'', name = ''A'', time = 10, tokens = 0, isHoldingButton = False,
           hasOptedOut = False, roundHoldDuration = 0, isEliminated = True\<rparr>"
  "heap threeWithOneOut (Suc 0) = \<lparr>id_sock = ''b'', name = ''B'', time = 10, tokens = 0,
           isHoldingButton = True, hasOptedOut = False, roundHoldDuration = 0, isEliminated = False\<rparr>"
  "heap threeWithOneOut 2 = \<lparr>id_sock = ''c'', name = ''C'', time = 10, tokens = 0,
           isHoldingButton = False, hasOptedOut = False, roundHoldDuration = 0, isEliminated = False\<rparr>"
proof -
  have "map_option (\<lambda>g. (status g, preRoundIntervalId g, currentRound g, maxRounds g, players g,
                          heap g 0, heap g (Suc 0), heap g 2))
          (play ''a'' ''A'' 10 3
             ([JoinRoom ''b'' ''B'', JoinRoom ''c'' ''C'',
               PlayerHolding ''a'', PlayerHolding ''b'', PlayerHolding ''c''] @
              replicate 5 CountdownTick @ [PlayerReleased ''b'', PlayerReleased ''c''] @
              replicate 10 RoundTick @ [StartNewRoundTimeout, PlayerHolding ''b''])) =
        Some (Waiting, False, 2, 3, [0, Suc 0, 2],
          \<lparr>id_sock = ''a'', name = ''A'', time = 10, tokens = 0, isHoldingButton = False,
           hasOptedOut = False, roundHoldDuration = 0, isEliminated = True\<rparr>,
          \<lparr>id_sock = ''b'', name = ''B'', time = 10, tokens = 0,
           isHoldingButton = True, hasOptedOut = False, roundHoldDuration = 0, isEliminated = False\<rparr>,
          \<lparr>id_sock = ''c'', name = ''C'', time = 10, tokens = 0,
           isHoldingButton = False, hasOptedOut = False, roundHoldDuration = 0, isEliminated = False\<rparr>)"
    by code_simp
  from the_map_option[OF this]
  show "play ''a'' ''A'' 10 3
     ([JoinRoom ''b'' ''B'', JoinRoom ''c'' ''C'',
       PlayerHolding ''a'', PlayerHolding ''b'', PlayerHolding ''c''] @
      replicate 5 CountdownTick @ [PlayerReleased ''b'', PlayerReleased ''c''] @
      replicate 10 RoundTick @ [StartNewRoundTimeout, PlayerHolding ''b'']) = Some threeWithOneOut"
  "status threeWithOneOut = Waiting" "preRoundIntervalId threeWithOneOut = False"
  "currentRound threeWithOneOut = 2" "maxRounds threeWithOneOut = 3"
  "players threeWithOneOut = [0, Suc 0, 2]"
  "heap threeWithOneOut 0 = \<lparr>id_sock = ''a'', name = ''A'', time = 10, tokens = 0, isHoldingButton = False,
           hasOptedOut = False, roundHoldDuration = 0, isEliminated = True\<rparr>"
  "heap threeWithOneOut (Suc 0) = \<lparr>id_sock = ''b'', name = ''B'', time = 10, tokens = 0,
           isHoldingButton = True, hasOptedOut = False, roundHoldDuration = 0, isEliminated = False\<rparr>"
  "heap threeWithOneOut 2 = \<lparr>id_sock = ''c'', name = ''C'', time = 10, tokens = 0,
           isHoldingButton = False, hasOptedOut = False, roundHoldDuration = 0, isEliminated = False\<rparr>"
    by (simp_all add: threeWithOneOut_def)
qed

section \<open>Basic facts about the helpers\<close>

lemma emit_fields [simp]:
  "players (emit e g) = players g" "status (emit e g) = status g"
  "currentRound (emit e g) = currentRound g" "maxRounds (emit e g) = maxRounds g"
  "preRoundCountdown (emit e g) = preRoundCountdown g"
  "preRoundIntervalId (emit e g) = preRoundIntervalId g"
  "roundElapsedTime (emit e g) = roundElapsedTime g"
  "roundTimerIntervalId (emit e g) = roundTimerIntervalId g"
  "activePlayersInRound (emit e g) = activePlayersInRound g"
  "heap (emit e g) = heap g" "nextRef (emit e g) = nextRef g" "timeouts (emit e g) = timeouts g"
  "outbox (emit e g) = outbox g @ [e]"
  by (simp_all add: emit_def)

lemma modify_fields [simp]:
  "players (modify r f g) = players g" "status (modify r f g) = status g"
  "currentRound (modify r f g) = currentRound g" "maxRounds (modify r f g) = maxRounds g"
  "preRoundCountdown (modify r f g) = preRoundCountdown g"
  "preRoundIntervalId (modify r f g) = preRoundIntervalId g"
  "roundElapsedTime (modify r f g) = roundElapsedTime g"
  "roundTimerIntervalId (modify r f g) = roundTimerIntervalId g"
  "activePlayersInRound (modify r f g) = activePlayersInRound g"
  "heap (modify r f g) = (heap g)(r := f (heap g r))"
  "nextRef (modify r f g) = nextRef g" "timeouts (modify r f g) = timeouts g"
  "outbox (modify r f g) = outbox g"
  by (simp_all add: modify_def)

lemma broadcastMessage_fields [simp]:
  "players (broadcastMessage d m g) = players g" "status (broadcastMessage d m g) = status g"
  "currentRound (broadcastMessage d m g) = currentRound g"
  "maxRounds (broadcastMessage d m g) = maxRounds g"
  "preRoundCountdown (broadcastMessage d m g) = preRoundCountdown g"
  "preRoundIntervalId (broadcastMessage d m g) = preRoundIntervalId g"
  "roundElapsedTime (broadcastMessage d m g) = roundElapsedTime g"
  "roundTimerIntervalId (broadcastMessage d m g) = roundTimerIntervalId g"
  "activePlayersInRound (broadcastMessage d m g) = activePlayersInRound g"
  "heap (broadcastMessage d m g) = heap g" "nextRef (broadcastMessage d m g) = nextRef g"
  "timeouts (broadcastMessage d m g) = timeouts g"
  "outbox (broadcastMessage d m g) = outbox g @ [Message d m]"
  by (simp_all add: broadcastMessage_def)

lemma broadcastPlayerStatusUpdate_fields [simp]:
  "players (broadcastPlayerStatusUpdate g) = players g"
  "status (broadcastPlayerStatusUpdate g) = status g"
  "currentRound (broadcastPlayerStatusUpdate g) = currentRound g"
  "maxRounds (broadcastPlayerStatusUpdate g) = maxRounds g"
  "preRoundCountdown (broadcastPlayerStatusUpdate g) = preRoundCountdown g"
  "preRoundIntervalId (broadcastPlayerStatusUpdate g) = preRoundIntervalId g"
  "roundElapsedTime (broadcastPlayerStatusUpdate g) = roundElapsedTime g"
  "roundTimerIntervalId (broadcastPlayerStatusUpdate g) = roundTimerIntervalId g"
  "activePlayersInRound (broadcastPlayerStatusUpdate g) = activePlayersInRound g"
  "heap (broadcastPlayerStatusUpdate g) = heap g" "nextRef (broadcastPlayerStatusUpdate g) = nextRef g"
  "timeouts (broadcastPlayerStatusUpdate g) = timeouts g"
  "outbox (broadcastPlayerStatusUpdate g) =
     outbox g @ [PlayerStatusUpdate (map (heap g) (players g)) (currentRound g) (maxRounds g) (status g)]"
  by (simp_all add: broadcastPlayerStatusUpdate_def)

lemma clearGameIntervals_fields [simp]:
  "players (clearGameIntervals g) = players g" "status (clearGameIntervals g) = status g"
  "currentRound (clearGameIntervals g) = currentRound g"
  "maxRounds (clearGameIntervals g) = maxRounds g"
  "preRoundCountdown (clearGameIntervals g) = preRoundCountdown g"
  "preRoundIntervalId (clearGameIntervals g) = False"
  "roundElapsedTime (clearGameIntervals g) = roundElapsedTime g"
  "roundTimerIntervalId (clearGameIntervals g) = False"
  "activePlayersInRound (clearGameIntervals g) = activePlayersInRound g"
  "heap (clearGameIntervals g) = heap g" "nextRef (clearGameIntervals g) = nextRef g"
  "timeouts (clearGameIntervals g) = timeouts g" "outbox (clearGameIntervals g) = outbox g"
  by (simp_all add: clearGameIntervals_def Let_def)

subsection \<open>Loops over player references\<close>

text \<open>
  Every \<open>forEach\<close> of the source is a \<open>fold\<close> whose body changes the store at the visited
  reference only. \<open>hp\<close> projects the store out of the loop state.
\<close>

lemma fold_keeps:
  assumes "\<And>r s. X (body r s) = X s"
  shows "X (fold body rs s) = X s"
  by (induction rs arbitrary: s) (simp_all add: assms)

lemma fold_heap_idem:
  assumes "\<And>r s. hp (body r s) = (hp s)(r := f (hp s r))" and "\<And>p. f (f p) = f p"
  shows "hp (fold body rs s) r = (if r \<in> set rs then f (hp s r) else hp s r)"
  by (induction rs arbitrary: s) (simp_all add: assms)

lemma fold_heap_distinct:
  assumes "\<And>r s. hp (body r s) = (hp s)(r := f (hp s r))" and "distinct rs"
  shows "hp (fold body rs s) r = (if r \<in> set rs then f (hp s r) else hp s r)"
  using assms(2) by (induction rs arbitrary: s) (auto simp: assms(1))

lemma fold_heap_pred:
  assumes step: "\<And>r s. hp (body r s) = (hp s)(r := f (hp s r))" and pres: "\<And>p. P p \<Longrightarrow> P (f p)"
    and init: "P (hp s r)"
  shows "P (hp (fold body rs s) r)"
  using init
proof (induction rs arbitrary: s)
  case Nil
  then show ?case by simp
next
  case (Cons a rs)
  have "P (hp (body a s) r)"
    using Cons.prems pres by (auto simp: step)
  then show ?case using Cons.IH by simp
qed

lemma fold_modify_fields [simp]:
  "players (fold (\<lambda>r. modify r f) rs g) = players g"
  "status (fold (\<lambda>r. modify r f) rs g) = status g"
  "currentRound (fold (\<lambda>r. modify r f) rs g) = currentRound g"
  "maxRounds (fold (\<lambda>r. modify r f) rs g) = maxRounds g"
  "preRoundCountdown (fold (\<lambda>r. modify r f) rs g) = preRoundCountdown g"
  "preRoundIntervalId (fold (\<lambda>r. modify r f) rs g) = preRoundIntervalId g"
  "roundElapsedTime (fold (\<lambda>r. modify r f) rs g) = roundElapsedTime g"
  "roundTimerIntervalId (fold (\<lambda>r. modify r f) rs g) = roundTimerIntervalId g"
  "activePlayersInRound (fold (\<lambda>r. modify r f) rs g) = activePlayersInRound g"
  "nextRef (fold (\<lambda>r. modify r f) rs g) = nextRef g"
  "timeouts (fold (\<lambda>r. modify r f) rs g) = timeouts g"
  "outbox (fold (\<lambda>r. modify r f) rs g) = outbox g"
  by (induction rs arbitrary: g; simp)+

lemma heap_fold_modify_idem:
  assumes "\<And>p. f (f p) = f p"
  shows "heap (fold (\<lambda>r. modify r f) rs g) r = (if r \<in> set rs then f (heap g r) else heap g r)"
  by (rule fold_heap_idem[where hp = heap and f = f]) (simp_all add: assms)

lemma heap_fold_modify_distinct:
  assumes "distinct rs"
  shows "heap (fold (\<lambda>r. modify r f) rs g) r = (if r \<in> set rs then f (heap g r) else heap g r)"
  by (rule fold_heap_distinct[where hp = heap and f = f]) (simp_all add: assms)

lemma heap_fold_modify_pred:
  assumes "\<And>p. P p \<Longrightarrow> P (f p)" and "P (heap g r)"
  shows "P (heap (fold (\<lambda>r. modify r f) rs g) r)"
  by (rule fold_heap_pred[where hp = heap and f = f and P = P]) (simp_all add: assms)

section \<open>Game over and the start of a round\<close>

lemma gameEnded_endsGame: "endsGame why g (gameEnded why g)"
  by (simp add: endsGame_def gameEnded_def Let_def)

lemma beginNextRound_fields:
  "currentRound (beginNextRound g) = currentRound g + 1"
  "status (beginNextRound g) = Waiting"
  "players (beginNextRound g) = players g"
  "nextRef (beginNextRound g) = nextRef g"
  "activePlayersInRound (beginNextRound g) = activePlayersInRound g"
  "preRoundIntervalId (beginNextRound g) = preRoundIntervalId g"
  "roundTimerIntervalId (beginNextRound g) = roundTimerIntervalId g"
  "timeouts (beginNextRound g) = timeouts g"
  "maxRounds (beginNextRound g) = maxRounds g"
  by (simp_all add: beginNextRound_def Let_def)

lemma resetForRound_idem: "resetForRound (resetForRound p) = resetForRound p"
  by (simp add: resetForRound_def)

lemma heap_beginNextRound:
  "heap (beginNextRound g) r = (if r \<in> set (players g) then resetForRound (heap g r) else heap g r)"
  by (simp add: beginNextRound_def Let_def heap_fold_modify_idem[OF resetForRound_idem])

text \<open>
  C4. Start-next-round, with \<open>alive\<close> the players of the room whose \<open>isEliminated\<close> is
  false: if at most one of them remains and the current round is greater than 0, the game
  ends with the sole-survivor reason (exactly one left, named in the reason) or the
  all-eliminated reason; otherwise, if \<open>currentRound >= maxRounds\<close>, the game ends with the
  rounds-exhausted reason; otherwise \<open>currentRound\<close> grows by exactly 1, the phase becomes
  \<open>Waiting\<close>, and every player's holding flag, opted-out flag and round hold duration are
  reset.
\<close>

theorem startNewRound_cases:
  "(let alive = filter (\<lambda>r. \<not> isEliminated (heap g r)) (players g) in
    if length alive \<le> 1 \<and> 0 < currentRound g then
      endsGame (if length alive = 1 then SoleSurvivor (name (heap g (hd alive))) else AllEliminated)
        g (startNewRound g)
    else if maxRounds g \<le> currentRound g then endsGame RoundsExhausted g (startNewRound g)
    else currentRound (startNewRound g) = currentRound g + 1 \<and>
         status (startNewRound g) = Waiting \<and>
         players (startNewRound g) = players g \<and>
         (\<forall>r \<in> set (players g).
            \<not> isHoldingButton (heap (startNewRound g) r) \<and>
            \<not> hasOptedOut (heap (startNewRound g) r) \<and>
            roundHoldDuration (heap (startNewRound g) r) = 0))"
proof -
  let ?alive = "filter (\<lambda>r. \<not> isEliminated (heap g r)) (players g)"
  consider (survivor) "length ?alive \<le> 1 \<and> 0 < currentRound g"
    | (exhausted) "\<not> (length ?alive \<le> 1 \<and> 0 < currentRound g)" "maxRounds g \<le> currentRound g"
    | (fresh) "\<not> (length ?alive \<le> 1 \<and> 0 < currentRound g)" "\<not> maxRounds g \<le> currentRound g"
    by blast
  then show ?thesis
  proof cases
    case survivor
    then have "startNewRound g =
        gameEnded (if length ?alive = 1
                   then SoleSurvivor (name (heap g (hd ?alive))) else AllEliminated) g"
      unfolding startNewRound_def alivePlayers_def Let_def by simp
    with survivor show ?thesis by (simp add: gameEnded_endsGame Let_def)
  next
    case exhausted
    then have "startNewRound g = gameEnded RoundsExhausted g"
      unfolding startNewRound_def alivePlayers_def Let_def by auto
    with exhausted show ?thesis by (auto simp: gameEnded_endsGame Let_def)
  next
    case fresh
    then have "startNewRound g = beginNextRound g"
      unfolding startNewRound_def alivePlayers_def Let_def by auto
    with fresh show ?thesis
      by (auto simp: beginNextRound_fields heap_beginNextRound resetForRound_def Let_def)
  qed
qed

text \<open>
  The five instances: a room without eliminated players (the next round begins, and does
  not when the rounds are used up); two players of whom \<open>A\<close> is eliminated (\<open>B\<close> is the sole
  survivor); a single, eliminated player (all eliminated); three players of whom \<open>A\<close> is
  eliminated (two are left, so round 3 begins and the holding flag of \<open>B\<close> is reset).
\<close>

theorem startNewRound_cases_witness:
  "filter (\<lambda>r. \<not> isEliminated (heap roomAB r)) (players roomAB) = [0, 1] \<and>
   currentRound roomAB = 1 \<and> maxRounds roomAB = 3 \<and>
   currentRound (startNewRound roomAB) = 2 \<and> status (startNewRound roomAB) = Waiting \<and>
   players (startNewRound roomAB) = [0, 1] \<and>
   \<not> isHoldingButton (heap (startNewRound roomAB) 1) \<and>
   \<not> hasOptedOut (heap (startNewRound roomAB) 1) \<and>
   roundHoldDuration (heap (startNewRound roomAB) 1) = 0 \<and>
   endsGame RoundsExhausted (roomAB\<lparr>currentRound := 3\<rparr>) (startNewRound (roomAB\<lparr>currentRound := 3\<rparr>)) \<and>
   filter (\<lambda>r. \<not> isEliminated (heap twoWithOneOut r)) (players twoWithOneOut) = [1] \<and>
   currentRound twoWithOneOut = 1 \<and>
   endsGame (SoleSurvivor ''B'') twoWithOneOut (startNewRound twoWithOneOut) \<and>
   filter (\<lambda>r. \<not> isEliminated (heap afterLastTick r)) (players afterLastTick) = [] \<and>
   currentRound afterLastTick = 1 \<and>
   endsGame AllEliminated afterLastTick (startNewRound afterLastTick) \<and>
   filter (\<lambda>r. \<not> isEliminated (heap threeWithOneOut r)) (players threeWithOneOut) = [1, 2] \<and>
   currentRound threeWithOneOut = 2 \<and> maxRounds threeWithOneOut = 3 \<and>
   isHoldingButton (heap threeWithOneOut 1) \<and>
   currentRound (startNewRound threeWithOneOut) = 3 \<and>
   status (startNewRound threeWithOneOut) = Waiting \<and>
   \<not> isHoldingButton (heap (startNewRound threeWithOneOut) 1)"
proof -
  have r: "players roomAB = [0, 1]" "currentRound roomAB = 1" "maxRounds roomAB = 3"
    "heap roomAB 0 = playerA" "heap roomAB (Suc 0) = playerB"
    by (simp_all add: roomAB_def)
  have c: "currentRound afterLastTick = 1"
    unfolding afterLastTick_def by code_simp
  have 1: "currentRound (startNewRound roomAB) = 2 \<and> status (startNewRound roomAB) = Waiting \<and>
        players (startNewRound roomAB) = [0, 1] \<and>
        \<not> isHoldingButton (heap (startNewRound roomAB) 1) \<and>
        \<not> hasOptedOut (heap (startNewRound roomAB) 1) \<and>
        roundHoldDuration (heap (startNewRound roomAB) 1) = 0"
    using startNewRound_cases[of roomAB] by (simp add: r playerA_def playerB_def)
  have 2: "endsGame RoundsExhausted (roomAB\<lparr>currentRound := 3\<rparr>)
             (startNewRound (roomAB\<lparr>currentRound := 3\<rparr>))"
    using startNewRound_cases[of "roomAB\<lparr>currentRound := 3\<rparr>"]
    by (simp add: r playerA_def playerB_def)
  have 3: "endsGame (SoleSurvivor ''B'') twoWithOneOut (startNewRound twoWithOneOut)"
    using startNewRound_cases[of twoWithOneOut] by (simp add: twoWithOneOut_facts)
  have 4: "endsGame AllEliminated afterLastTick (startNewRound afterLastTick)"
    using startNewRound_cases[of afterLastTick] by (simp add: afterLastTick_facts c)
  have 5: "currentRound (startNewRound threeWithOneOut) = 3 \<and>
           status (startNewRound threeWithOneOut) = Waiting \<and>
           \<not> isHoldingButton (heap (startNewRound threeWithOneOut) 1)"
    using startNewRound_cases[of threeWithOneOut] by (simp add: threeWithOneOut_facts)
  from 1 2 3 4 5 show ?thesis
    by (simp add: r c playerA_def playerB_def twoWithOneOut_facts afterLastTick_facts
          threeWithOneOut_facts)
qed

section \<open>Joining a room\<close>

lemma joinReplay_fields:
  "players (joinReplay s g) = players g" "status (joinReplay s g) = status g"
  "currentRound (joinReplay s g) = currentRound g" "maxRounds (joinReplay s g) = maxRounds g"
  "preRoundCountdown (joinReplay s g) = preRoundCountdown g"
  "preRoundIntervalId (joinReplay s g) = preRoundIntervalId g"
  "roundElapsedTime (joinReplay s g) = roundElapsedTime g"
  "roundTimerIntervalId (joinReplay s g) = roundTimerIntervalId g"
  "activePlayersInRound (joinReplay s g) = activePlayersInRound g"
  "heap (joinReplay s g) = heap g" "nextRef (joinReplay s g) = nextRef g"
  "timeouts (joinReplay s g) = timeouts g"
  by (simp_all add: joinReplay_def Let_def)

lemma joinRoom_rejects:
  assumes "\<not> joinable room playerName"
  shows "fst (joinRoom room s playerName) \<in> Failure ` UNIV" "snd (joinRoom room s playerName) = room"
  using assms
  by (auto simp: joinRoom_def joinable_def list_ex_iff split: option.splits)

lemma joinRoom_accepts:
  assumes "joinable (Some g) playerName" "players g \<noteq> []"
  shows "joinRoom (Some g) s playerName =
           (Success (newPlayer s playerName (time (heap g (hd (players g))))),
            Some (joinReplay s (broadcastPlayerStatusUpdate
              (g\<lparr>heap := (heap g)(nextRef g := newPlayer s playerName (time (heap g (hd (players g))))),
                  nextRef := nextRef g + 1, players := players g @ [nextRef g]\<rparr>))))"
  using assms
  by (auto simp: joinRoom_def joinable_def list_ex_iff Let_def split: list.splits)

text \<open>
  C10 (as amended). A join request succeeds if and only if the room exists, its phase is
  \<open>Waiting\<close>, \<open>RoundEnded\<close> or \<open>GameOver\<close>, it has fewer than 4 players and the name is not
  used in the room. On failure the requester gets a rejection, nothing is emitted and
  the room is unchanged. On success exactly one player record is appended; its tokens,
  flags and round hold duration are zero or false, and its time is the current time of
  the first player of the room (\<open>game.players[0].time\<close>), not the initial time the room
  was created with.
\<close>

theorem joinRoom_outcome:
  assumes "occupied room"
  shows "if joinable room playerName then
           (\<exists>g g'. room = Some g \<and>
              joinRoom room s playerName =
                (Success \<lparr>id_sock = s, name = playerName, time = time (heap g (hd (players g))),
                          tokens = 0, isHoldingButton = False, hasOptedOut = False,
                          roundHoldDuration = 0, isEliminated = False\<rparr>, Some g') \<and>
              players g' = players g @ [nextRef g] \<and>
              heap g' = (heap g)(nextRef g :=
                \<lparr>id_sock = s, name = playerName, time = time (heap g (hd (players g))),
                  tokens = 0, isHoldingButton = False, hasOptedOut = False,
                  roundHoldDuration = 0, isEliminated = False\<rparr>) \<and>
              status g' = status g \<and> currentRound g' = currentRound g \<and>
              activePlayersInRound g' = activePlayersInRound g)
         else
           (\<exists>e. joinRoom room s playerName = (Failure e, room))"
proof (cases "joinable room playerName")
  case True
  then obtain g where g: "room = Some g" by (auto simp: joinable_def split: option.splits)
  with assms have ne: "players g \<noteq> []" by (simp add: occupied_def)
  show ?thesis
    using True unfolding g
    by (simp add: joinRoom_accepts[OF True[unfolded g] ne] joinReplay_fields newPlayer_def)
next
  case False
  from joinRoom_rejects[OF False, of s] show ?thesis
    using False by (cases "joinRoom room s playerName") auto
qed

theorem joinRoom_outcome_witness:
  "occupied (Some roomAB) \<and> joinable (Some roomAB) ''C'' \<and>
   fst (joinRoom (Some roomAB) ''c'' ''C'') =
     Success \<lparr>id_sock = ''c'', name = ''C'', time = 53, tokens = 0, isHoldingButton = False,
               hasOptedOut = False, roundHoldDuration = 0, isEliminated = False\<rparr> \<and>
   \<not> joinable (Some roomAB) ''A'' \<and>
   joinRoom (Some roomAB) ''c'' ''A'' = (Failure NameTaken, Some roomAB)"
proof -
  have o: "occupied (Some roomAB)" by (simp add: occupied_def roomAB_def)
  have j: "joinable (Some roomAB) ''C''" "\<not> joinable (Some roomAB) ''A''"
    by (simp_all add: joinable_def roomAB_def playerA_def playerB_def)
  have t: "time (heap roomAB (hd (players roomAB))) = 53"
    by (simp add: roomAB_def playerA_def)
  have f: "fst (joinRoom (Some roomAB) ''c'' ''A'') = Failure NameTaken"
    by (simp add: joinRoom_def roomAB_def playerA_def playerB_def)
  show ?thesis
    using joinRoom_outcome[OF o, of "''C''" "''c''"] joinRoom_outcome[OF o, of "''A''" "''c''"] f
    by (auto simp: j t o)
qed

text \<open>
  The claim as stated fails: a room is created with an initial time of 60 seconds, its
  creator wins round 1 with a hold of one second, and the player who joins afterwards
  starts with 59 seconds.
\<close>

theorem joinRoom_time_counterexample:
  "map_option standings (play ''a'' ''A'' 60 3 []) =
     Some [\<lparr>id_sock = ''a'', name = ''A'', time = 60, tokens = 0, isHoldingButton = False,
             hasOptedOut = False, roundHoldDuration = 0, isEliminated = False\<rparr>] \<and>
   map_option standings (play ''a'' ''A'' 60 3
     ([PlayerHolding ''a''] @ replicate 5 CountdownTick @
      [RoundTick, PlayerReleased ''a'', JoinRoom ''b'' ''B''])) =
     Some [\<lparr>id_sock = ''a'', name = ''A'', time = 59, tokens = 1, isHoldingButton = False,
             hasOptedOut = False, roundHoldDuration = 1, isEliminated = False\<rparr>,
           \<lparr>id_sock = ''b'', name = ''B'', time = 59, tokens = 0, isHoldingButton = False,
             hasOptedOut = False, roundHoldDuration = 0, isEliminated = False\<rparr>]"
  by code_simp

section \<open>Effects of the round functions on the room\<close>

lemma gameEnded_fields [simp]:
  "players (gameEnded why g) = players g" "status (gameEnded why g) = GameOver"
  "currentRound (gameEnded why g) = currentRound g" "maxRounds (gameEnded why g) = maxRounds g"
  "preRoundIntervalId (gameEnded why g) = False" "roundTimerIntervalId (gameEnded why g) = False"
  "activePlayersInRound (gameEnded why g) = activePlayersInRound g"
  "heap (gameEnded why g) = heap g" "nextRef (gameEnded why g) = nextRef g"
  "timeouts (gameEnded why g) = timeouts g"
  by (simp_all add: gameEnded_def Let_def)


lemma startNewRound_heap_pred:
  assumes "P (heap g r)" "P (resetForRound (heap g r))"
  shows "P (heap (startNewRound g) r)"
  using assms by (simp add: startNewRound_def Let_def heap_beginNextRound)

lemma armCountdown_fields:
  "players (armCountdown g) = players g" "status (armCountdown g) = PreCountdown"
  "currentRound (armCountdown g) = currentRound g" "maxRounds (armCountdown g) = maxRounds g"
  "preRoundCountdown (armCountdown g) = 5" "preRoundIntervalId (armCountdown g) = True"
  "roundTimerIntervalId (armCountdown g) = roundTimerIntervalId g"
  "activePlayersInRound (armCountdown g) = activePlayersInRound g"
  "nextRef (armCountdown g) = nextRef g" "timeouts (armCountdown g) = timeouts g"
  by (simp_all add: armCountdown_def Let_def)

lemma resetForCountdown_idem: "resetForCountdown (resetForCountdown p) = resetForCountdown p"
  by (simp add: resetForCountdown_def)

lemma heap_armCountdown:
  "heap (armCountdown g) r = (if r \<in> set (players g) then resetForCountdown (heap g r) else heap g r)"
  by (simp add: armCountdown_def Let_def heap_fold_modify_idem[OF resetForCountdown_idem])

lemma startPreRoundCountdown_frame:
  "players (startPreRoundCountdown g) = players g" "nextRef (startPreRoundCountdown g) = nextRef g"
  "activePlayersInRound (startPreRoundCountdown g) = activePlayersInRound g"
  "timeouts (startPreRoundCountdown g) = timeouts g"
  by (simp_all add: startPreRoundCountdown_def armCountdown_fields)

lemma startPreRoundCountdown_heap_pred:
  assumes "P (heap g r)" "P (resetForCountdown (heap g r))"
  shows "P (heap (startPreRoundCountdown g) r)"
  using assms by (simp add: startPreRoundCountdown_def heap_armCountdown)

subsection \<open>Round resolution\<close>

lemma roundScan_status [simp]: "roundScan (g\<lparr>status := x\<rparr>) = roundScan g"
  by (simp add: roundScan_def)

lemma awardWinners_fields [simp]:
  "players (awardWinners m ws g) = players g" "status (awardWinners m ws g) = status g"
  "currentRound (awardWinners m ws g) = currentRound g" "maxRounds (awardWinners m ws g) = maxRounds g"
  "preRoundCountdown (awardWinners m ws g) = preRoundCountdown g"
  "preRoundIntervalId (awardWinners m ws g) = preRoundIntervalId g"
  "roundElapsedTime (awardWinners m ws g) = roundElapsedTime g"
  "roundTimerIntervalId (awardWinners m ws g) = roundTimerIntervalId g"
  "activePlayersInRound (awardWinners m ws g) = activePlayersInRound g"
  "nextRef (awardWinners m ws g) = nextRef g" "timeouts (awardWinners m ws g) = timeouts g"
  "outbox (awardWinners m ws g) = outbox g"
  by (simp_all add: awardWinners_def)

lemma fold_modify_status:
  "fold (\<lambda>r. modify r f) rs (g\<lparr>status := x\<rparr>) = (fold (\<lambda>r. modify r f) rs g)\<lparr>status := x\<rparr>"
proof (induction rs arbitrary: g)
  case Nil
  show ?case by simp
next
  case (Cons a rs)
  have eq: "modify a f (g\<lparr>status := x\<rparr>) = (modify a f g)\<lparr>status := x\<rparr>"
    by (simp add: modify_def)
  show ?case by (simp only: fold_simps comp_apply eq Cons.IH)
qed

lemma awardWinners_status:
  "awardWinners m ws (g\<lparr>status := x\<rparr>) = (awardWinners m ws g)\<lparr>status := x\<rparr>"
  by (simp add: awardWinners_def fold_modify_status modify_def)

lemma awardWinners_heap_pred:
  assumes "\<And>p. P p \<Longrightarrow> P (award m p)" "P (heap g r)"
  shows "P (heap (awardWinners m ws g) r)"
  using assms by (auto simp: awardWinners_def intro: heap_fold_modify_pred)

lemma heap_awardWinners:
  assumes "distinct ws"
  shows "heap (awardWinners m ws g) r =
           (if m \<noteq> 0 \<and> r \<in> set ws then award m (heap g r) else heap g r)"
proof (cases "length ws = 1")
  case True
  then obtain w where "ws = [w]" by (cases ws) auto
  then show ?thesis by (simp add: awardWinners_def)
next
  case False
  then show ?thesis using assms by (auto simp: awardWinners_def heap_fold_modify_distinct)
qed

lemma endRoundOnServer_fields:
  "players (endRoundOnServer g) = players g" "status (endRoundOnServer g) = RoundEnded"
  "currentRound (endRoundOnServer g) = currentRound g" "maxRounds (endRoundOnServer g) = maxRounds g"
  "preRoundIntervalId (endRoundOnServer g) = preRoundIntervalId g"
  "roundTimerIntervalId (endRoundOnServer g) = roundTimerIntervalId g"
  "activePlayersInRound (endRoundOnServer g) = activePlayersInRound g"
  "nextRef (endRoundOnServer g) = nextRef g" "timeouts (endRoundOnServer g) = timeouts g + 1"
  by (simp_all add: endRoundOnServer_def Let_def)

lemma releaseAll_idem: "releaseAll (releaseAll p) = releaseAll p"
  by (simp add: releaseAll_def)

lemma heap_endRoundOnServer:
  "heap (endRoundOnServer g) r =
     (if r \<in> set (players g)
      then releaseAll (heap (awardWinners (fst (roundScan g)) (snd (roundScan g)) g) r)
      else heap (awardWinners (fst (roundScan g)) (snd (roundScan g)) g) r)"
  by (simp add: endRoundOnServer_def Let_def awardWinners_status
        heap_fold_modify_idem[OF releaseAll_idem])

lemma endRoundOnServer_heap_pred:
  assumes a: "\<And>p m. P p \<Longrightarrow> P (award m p)" and b: "\<And>p. P p \<Longrightarrow> P (releaseAll p)"
    and c: "P (heap g r)"
  shows "P (heap (endRoundOnServer g) r)"
proof -
  have "P (heap (awardWinners (fst (roundScan g)) (snd (roundScan g)) g) r)"
    using a c by (rule awardWinners_heap_pred)
  then show ?thesis using b by (simp add: heap_endRoundOnServer)
qed

lemma endRoundOnServer_player:
  assumes "r \<in> set (players g)"
  shows "\<not> isHoldingButton (heap (endRoundOnServer g) r)" "\<not> hasOptedOut (heap (endRoundOnServer g) r)"
  using assms by (simp_all add: heap_endRoundOnServer releaseAll_def)


lemma checkAllReleasedOnServer_heap_pred:
  assumes "\<And>p m. P p \<Longrightarrow> P (award m p)" "\<And>p. P p \<Longrightarrow> P (releaseAll p)" "P (heap g r)"
  shows "P (heap (checkAllReleasedOnServer g) r)"
proof -
  have "P (heap (endRoundOnServer (clearGameIntervals g)) r)"
    by (rule endRoundOnServer_heap_pred) (simp_all add: assms)
  then show ?thesis using assms(3) by (simp add: checkAllReleasedOnServer_def)
qed

subsection \<open>End of the countdown\<close>


lemma heap_preRoundEndPlayer:
  "heap (preRoundEndPlayer r g) = (heap g)(r := optOutAtEnd (heap g r))"
  by (simp add: preRoundEndPlayer_def optOutAtEnd_def Let_def)

lemma optOutAtEnd_idem: "optOutAtEnd (optOutAtEnd p) = optOutAtEnd p"
  by (simp add: optOutAtEnd_def)


lemma heap_fold_preRoundEndPlayer:
  "heap (fold preRoundEndPlayer rs g) r = (if r \<in> set rs then optOutAtEnd (heap g r) else heap g r)"
  by (rule fold_heap_idem[where hp = heap and f = optOutAtEnd])
     (simp_all add: heap_preRoundEndPlayer optOutAtEnd_idem)


lemma heap_handlePreRoundEndOnServer:
  "heap (handlePreRoundEndOnServer g) r =
     (if r \<in> set (players g) then optOutAtEnd (heap g r) else heap g r)"
  by (simp add: handlePreRoundEndOnServer_def Let_def heap_fold_preRoundEndPlayer)


lemma heap_countdownTick:
  "heap (countdownTick g) r =
     (if preRoundCountdown g \<le> 1 \<and> r \<in> set (players g) then optOutAtEnd (heap g r) else heap g r)"
  by (simp add: countdownTick_def Let_def heap_handlePreRoundEndOnServer)

subsection \<open>The bidding tick\<close>

lemma tickPlayer_keeps:
  "players (fst (tickPlayer r gc)) = players (fst gc)" "status (fst (tickPlayer r gc)) = status (fst gc)"
  "currentRound (fst (tickPlayer r gc)) = currentRound (fst gc)"
  "maxRounds (fst (tickPlayer r gc)) = maxRounds (fst gc)"
  "preRoundIntervalId (fst (tickPlayer r gc)) = preRoundIntervalId (fst gc)"
  "roundTimerIntervalId (fst (tickPlayer r gc)) = roundTimerIntervalId (fst gc)"
  "roundElapsedTime (fst (tickPlayer r gc)) = roundElapsedTime (fst gc)"
  "activePlayersInRound (fst (tickPlayer r gc)) = activePlayersInRound (fst gc)"
  "nextRef (fst (tickPlayer r gc)) = nextRef (fst gc)" "timeouts (fst (tickPlayer r gc)) = timeouts (fst gc)"
  by (simp_all add: tickPlayer_def Let_def)

lemma heap_tickPlayer:
  "heap (fst (tickPlayer r gc)) = (heap (fst gc))(r := tickEffect (heap (fst gc) r))"
  by (simp add: tickPlayer_def tickEffect_def forceRelease_def Let_def)

lemma fold_tickPlayer_keeps:
  "players (fst (fold tickPlayer rs gc)) = players (fst gc)"
  "status (fst (fold tickPlayer rs gc)) = status (fst gc)"
  "currentRound (fst (fold tickPlayer rs gc)) = currentRound (fst gc)"
  "maxRounds (fst (fold tickPlayer rs gc)) = maxRounds (fst gc)"
  "preRoundIntervalId (fst (fold tickPlayer rs gc)) = preRoundIntervalId (fst gc)"
  "roundTimerIntervalId (fst (fold tickPlayer rs gc)) = roundTimerIntervalId (fst gc)"
  "roundElapsedTime (fst (fold tickPlayer rs gc)) = roundElapsedTime (fst gc)"
  "activePlayersInRound (fst (fold tickPlayer rs gc)) = activePlayersInRound (fst gc)"
  "nextRef (fst (fold tickPlayer rs gc)) = nextRef (fst gc)"
  "timeouts (fst (fold tickPlayer rs gc)) = timeouts (fst gc)"
  apply (rule fold_keeps[where X = "\<lambda>s. players (fst s)"], simp add: tickPlayer_keeps)
  apply (rule fold_keeps[where X = "\<lambda>s. status (fst s)"], simp add: tickPlayer_keeps)
  apply (rule fold_keeps[where X = "\<lambda>s. currentRound (fst s)"], simp add: tickPlayer_keeps)
  apply (rule fold_keeps[where X = "\<lambda>s. maxRounds (fst s)"], simp add: tickPlayer_keeps)
  apply (rule fold_keeps[where X = "\<lambda>s. preRoundIntervalId (fst s)"], simp add: tickPlayer_keeps)
  apply (rule fold_keeps[where X = "\<lambda>s. roundTimerIntervalId (fst s)"], simp add: tickPlayer_keeps)
  apply (rule fold_keeps[where X = "\<lambda>s. roundElapsedTime (fst s)"], simp add: tickPlayer_keeps)
  apply (rule fold_keeps[where X = "\<lambda>s. activePlayersInRound (fst s)"], simp add: tickPlayer_keeps)
  apply (rule fold_keeps[where X = "\<lambda>s. nextRef (fst s)"], simp add: tickPlayer_keeps)
  apply (rule fold_keeps[where X = "\<lambda>s. timeouts (fst s)"], simp add: tickPlayer_keeps)
  done

lemma tickUpdates_fields:
  "players (tickUpdates g) = players g" "status (tickUpdates g) = status g"
  "currentRound (tickUpdates g) = currentRound g" "maxRounds (tickUpdates g) = maxRounds g"
  "preRoundIntervalId (tickUpdates g) = preRoundIntervalId g"
  "roundTimerIntervalId (tickUpdates g) = roundTimerIntervalId g"
  "activePlayersInRound (tickUpdates g) = activePlayersInRound g"
  "nextRef (tickUpdates g) = nextRef g" "timeouts (tickUpdates g) = timeouts g"
  by (simp_all add: tickUpdates_def Let_def fold_tickPlayer_keeps)


lemma heap_tickUpdates:
  assumes "distinct (players g)"
  shows "heap (tickUpdates g) r = (if r \<in> set (players g) then tickEffect (heap g r) else heap g r)"
proof -
  have "heap (fst (fold tickPlayer (players g) (g\<lparr>roundElapsedTime := roundElapsedTime g + 1\<rparr>, False))) r =
        (if r \<in> set (players g) then tickEffect (heap g r) else heap g r)"
    using fold_heap_distinct[where hp = "\<lambda>s. heap (fst s)" and f = tickEffect and body = tickPlayer
        and rs = "players g" and s = "(g\<lparr>roundElapsedTime := roundElapsedTime g + 1\<rparr>, False)" and r = r]
    by (simp add: heap_tickPlayer assms)
  then show ?thesis by (simp add: tickUpdates_def Let_def)
qed



section \<open>The invariant\<close>

lemma durOk_simps [simp]:
  "durOk p \<Longrightarrow> durOk (resetForRound p)" "durOk p \<Longrightarrow> durOk (resetForCountdown p)"
  "durOk p \<Longrightarrow> durOk (award m p)" "durOk p \<Longrightarrow> durOk (releaseAll p)"
  "durOk p \<Longrightarrow> durOk (optOutAtEnd p)" "durOk p \<Longrightarrow> durOk (tickEffect p)"
  "durOk p \<Longrightarrow> durOk (p\<lparr>isHoldingButton := b\<rparr>)" "durOk p \<Longrightarrow> durOk (p\<lparr>hasOptedOut := b\<rparr>)"
  by (simp_all add: durOk_def resetForRound_def resetForCountdown_def award_def releaseAll_def
        optOutAtEnd_def tickEffect_def forceRelease_def)

lemma holdOk_simps [simp]:
  "holdOk (resetForRound p)" "holdOk p \<Longrightarrow> holdOk (resetForCountdown p)"
  "holdOk (releaseAll p)"
  "holdOk p \<Longrightarrow> holdOk (optOutAtEnd p)" "holdOk p \<Longrightarrow> holdOk (tickEffect p)"
  "holdOk p \<Longrightarrow> holdOk (p\<lparr>isHoldingButton := False\<rparr>)" "holdOk p \<Longrightarrow> holdOk (p\<lparr>hasOptedOut := b\<rparr>)"
  "0 < time p \<Longrightarrow> \<not> isEliminated p \<Longrightarrow> holdOk (p\<lparr>isHoldingButton := True\<rparr>)"
  by (auto simp: holdOk_def resetForRound_def resetForCountdown_def releaseAll_def
        optOutAtEnd_def tickEffect_def forceRelease_def)












subsection \<open>The socket handlers keep the invariant\<close>

lemma find_Some_in: "find P xs = Some x \<Longrightarrow> x \<in> set xs \<and> P x"
  by (induction xs) (auto split: if_splits)



lemma departed_heap_pred:
  assumes "departed s g = Some g'"
    and "\<And>p. P p \<Longrightarrow> P (resetForCountdown p)" "\<And>p m. P p \<Longrightarrow> P (award m p)"
    and "\<And>p. P p \<Longrightarrow> P (releaseAll p)" "P (heap g r)"
  shows "P (heap g' r)"
proof -
  let ?g1 = "g\<lparr>players := filter (\<lambda>r. id_sock (heap g r) \<noteq> s) (players g)\<rparr>"
  let ?g4 = "broadcastMessage ToRoom CountdownInterrupted (?g1\<lparr>preRoundIntervalId := False, status := Waiting\<rparr>)"
  have 1: "P (heap (startPreRoundCountdown ?g4) r)"
    by (rule startPreRoundCountdown_heap_pred) (simp_all add: assms)
  have 2: "P (heap (checkAllReleasedOnServer ?g1) r)"
    by (rule checkAllReleasedOnServer_heap_pred) (simp_all add: assms)
  show ?thesis
    using assms(1) 1 2 assms(5)
    by (auto simp: departed_def Let_def split: if_splits)
qed


lemma playerHolding_frame:
  "players (playerHolding s g) = players g" "nextRef (playerHolding s g) = nextRef g"
  "activePlayersInRound (playerHolding s g) = activePlayersInRound g"
  by (simp_all add: playerHolding_def Let_def startPreRoundCountdown_frame split: option.splits)






section \<open>The winners of a round\<close>

lemma scanWinner_fold:
  assumes "\<forall>r \<in> set xs. \<not> isEliminated (h r) \<and> \<not> hasOptedOut (h r) \<longrightarrow> 0 \<le> roundHoldDuration (h r)"
  shows "0 \<le> fst (fold (scanWinner h) xs (0, [])) \<and>
         (\<forall>r \<in> set xs. \<not> isEliminated (h r) \<and> \<not> hasOptedOut (h r) \<longrightarrow>
             roundHoldDuration (h r) \<le> fst (fold (scanWinner h) xs (0, []))) \<and>
         snd (fold (scanWinner h) xs (0, [])) =
           filter (\<lambda>r. (\<not> isEliminated (h r) \<and> \<not> hasOptedOut (h r)) \<and>
                        roundHoldDuration (h r) = fst (fold (scanWinner h) xs (0, []))) xs \<and>
         (fst (fold (scanWinner h) xs (0, [])) = 0 \<or> snd (fold (scanWinner h) xs (0, [])) \<noteq> [])"
  using assms
proof (induction xs rule: rev_induct)
  case Nil
  show ?case by simp
next
  case (snoc x xs)
  let ?acc = "fold (scanWinner h) xs (0, [])"
  from snoc have ih: "0 \<le> fst ?acc"
    "\<forall>r \<in> set xs. \<not> isEliminated (h r) \<and> \<not> hasOptedOut (h r) \<longrightarrow> roundHoldDuration (h r) \<le> fst ?acc"
    "snd ?acc = filter (\<lambda>r. (\<not> isEliminated (h r) \<and> \<not> hasOptedOut (h r)) \<and>
                        roundHoldDuration (h r) = fst ?acc) xs"
    "fst ?acc = 0 \<or> snd ?acc \<noteq> []"
    by auto
  have step: "fold (scanWinner h) (xs @ [x]) (0, []) = scanWinner h x ?acc" by simp
  consider (out) "\<not> (\<not> isEliminated (h x) \<and> \<not> hasOptedOut (h x))"
    | (more) "\<not> isEliminated (h x) \<and> \<not> hasOptedOut (h x)" "roundHoldDuration (h x) > fst ?acc"
    | (same) "\<not> isEliminated (h x) \<and> \<not> hasOptedOut (h x)" "roundHoldDuration (h x) = fst ?acc"
    | (less) "\<not> isEliminated (h x) \<and> \<not> hasOptedOut (h x)" "roundHoldDuration (h x) < fst ?acc"
    by linarith
  then show ?case
  proof cases
    case out
    then have "scanWinner h x ?acc = ?acc" by (auto simp: scanWinner_def Let_def)
    with ih out show ?thesis unfolding step by auto
  next
    case more
    then have s: "scanWinner h x ?acc = (roundHoldDuration (h x), [x])"
      by (simp add: scanWinner_def Let_def)
    have "filter (\<lambda>r. (\<not> isEliminated (h r) \<and> \<not> hasOptedOut (h r)) \<and>
              roundHoldDuration (h r) = roundHoldDuration (h x)) xs = []"
      using ih(2) more(2) by (auto simp: filter_empty_conv)
    with ih more show ?thesis unfolding step s by auto
  next
    case same
    then have s: "scanWinner h x ?acc = (fst ?acc, snd ?acc @ [x])"
      by (simp add: scanWinner_def Let_def)
    with ih same show ?thesis unfolding step s by auto
  next
    case less
    then have "scanWinner h x ?acc = ?acc" by (auto simp: scanWinner_def Let_def)
    with ih less show ?thesis unfolding step by auto
  qed
qed

lemma roundScan_spec:
  assumes "\<forall>r \<in> set (activePlayersInRound g). eligible g r \<longrightarrow> 0 \<le> roundHoldDuration (heap g r)"
  shows "fst (roundScan g) = maxDuration g" "snd (roundScan g) = roundWinners g"
proof -
  let ?m = "fst (roundScan g)"
  have hyp: "\<forall>r \<in> set (activePlayersInRound g).
      \<not> isEliminated (heap g r) \<and> \<not> hasOptedOut (heap g r) \<longrightarrow> 0 \<le> roundHoldDuration (heap g r)"
    using assms by (auto simp: eligible_def)
  note sc = scanWinner_fold[OF hyp, folded roundScan_def]
  have ws: "snd (roundScan g) = filter (\<lambda>r. roundHoldDuration (heap g r) = ?m) (contenders g)"
    using sc by (auto simp: contenders_def eligible_def intro: filter_cong)
  have ub: "\<forall>r \<in> set (contenders g). roundHoldDuration (heap g r) \<le> ?m"
    using sc by (auto simp: contenders_def eligible_def)
  show m: "?m = maxDuration g"
  proof (cases "contenders g = []")
    case True
    then have "snd (roundScan g) = []" using ws by simp
    with sc have "?m = 0" by auto
    then show ?thesis using True by (simp add: maxDuration_def)
  next
    case False
    have "\<exists>r \<in> set (contenders g). roundHoldDuration (heap g r) = ?m"
    proof (cases "snd (roundScan g) = []")
      case True
      with sc have z: "?m = 0" by auto
      from False obtain r where r: "r \<in> set (contenders g)" by (cases "contenders g") auto
      then have "0 \<le> roundHoldDuration (heap g r)"
        using assms by (auto simp: contenders_def)
      with ub r z have "roundHoldDuration (heap g r) = ?m" by auto
      with r show ?thesis by blast
    next
      case False
      then obtain r where "r \<in> set (snd (roundScan g))" by (cases "snd (roundScan g)") auto
      then show ?thesis unfolding ws by auto
    qed
    then have "?m \<in> set (map (\<lambda>r. roundHoldDuration (heap g r)) (contenders g))"
      by (auto simp: image_iff intro: sym)
    moreover have "\<forall>y \<in> set (map (\<lambda>r. roundHoldDuration (heap g r)) (contenders g)). y \<le> ?m"
      using ub by auto
    ultimately have "Max (set (map (\<lambda>r. roundHoldDuration (heap g r)) (contenders g))) = ?m"
      by (intro Max_eqI) auto
    then show ?thesis using False by (simp add: maxDuration_def)
  qed
  show "snd (roundScan g) = roundWinners g"
    using ws m by (simp add: roundWinners_def)
qed


lemma wf_round_hyps:
  assumes "wf g"
  shows "distinct (activePlayersInRound g)"
    "\<forall>r \<in> set (activePlayersInRound g). eligible g r \<longrightarrow> 0 \<le> roundHoldDuration (heap g r)"
  using assms by (auto simp: wf_def durOk_def eligible_def)

lemma award_fields [simp]:
  "tokens (award m p) = tokens p + 1" "time (award m p) = time p - m"
  "id_sock (award m p) = id_sock p" "name (award m p) = name p"
  by (simp_all add: award_def)

lemma releaseAll_fields [simp]:
  "tokens (releaseAll p) = tokens p" "time (releaseAll p) = time p"
  by (simp_all add: releaseAll_def)

lemma outbox_endRoundOnServer:
  "outbox (endRoundOnServer g) = outbox g @
     [Message ToRoom (roundAnnouncement g (fst (roundScan g)) (snd (roundScan g))),
      RoundWinnerAnnounced (roundAnnouncement g (fst (roundScan g)) (snd (roundScan g)))
        (map (\<lambda>r. (id_sock (heap g r), name (heap g r))) (snd (roundScan g)))
        (fst (roundScan g)) (1 < length (snd (roundScan g))),
      PlayerStatusUpdate
        (map (\<lambda>r. releaseAll (heap (awardWinners (fst (roundScan g)) (snd (roundScan g)) g) r))
           (players g))
        (currentRound g) (maxRounds g) RoundEnded]"
proof -
  have n: "(\<lambda>r. (id_sock (heap (awardWinners m ws g) r), name (heap (awardWinners m ws g) r))) =
           (\<lambda>r. (id_sock (heap g r), name (heap g r)))" for m ws
  proof (rule ext)
    fix r
    have "id_sock (heap (awardWinners m ws g) r) = id_sock (heap g r)"
      by (rule awardWinners_heap_pred[where P = "\<lambda>p. id_sock p = id_sock (heap g r)"]) simp_all
    moreover have "name (heap (awardWinners m ws g) r) = name (heap g r)"
      by (rule awardWinners_heap_pred[where P = "\<lambda>p. name p = name (heap g r)"]) simp_all
    ultimately show "(id_sock (heap (awardWinners m ws g) r), name (heap (awardWinners m ws g) r)) =
                     (id_sock (heap g r), name (heap g r))" by simp
  qed
  have a: "roundAnnouncement (g\<lparr>status := RoundEnded\<rparr>) m ws = roundAnnouncement g m ws" for m ws
    by (simp add: roundAnnouncement_def)
  have h: "map (heap (fold (\<lambda>r. modify r releaseAll) (players g) X)) (players g) =
           map (\<lambda>r. releaseAll (heap X r)) (players g)" for X
    by (rule map_cong) (simp_all add: heap_fold_modify_idem[OF releaseAll_idem])
  show ?thesis
    by (simp add: endRoundOnServer_def Let_def awardWinners_status a n fold_modify_status h)
qed

text \<open>
  C2. When a round is resolved, the winner set computed by \<open>endRoundOnServer\<close> is
  exactly the players of \<open>activePlayersInRound\<close> that are neither opted out nor eliminated
  and whose round hold duration equals the maximum over that restricted set, and this set
  and the maximum are announced. If the maximum is 0 or the restricted set is empty,
  nobody is awarded: no tokens and no time change. Otherwise every winner, all members
  of a tie included, gets one token more and loses the maximum duration of time, and the
  tokens and time of every other player are unchanged. The hypotheses hold in every
  well-formed room (\<open>wf_round_hyps\<close>), hence wherever the server resolves a round.
\<close>

theorem endRoundOnServer_winners:
  assumes "distinct (activePlayersInRound g)"
    and "\<forall>r \<in> set (activePlayersInRound g). eligible g r \<longrightarrow> 0 \<le> roundHoldDuration (heap g r)"
  shows "snd (roundScan g) = roundWinners g \<and> fst (roundScan g) = maxDuration g \<and>
         status (endRoundOnServer g) = RoundEnded \<and>
         RoundWinnerAnnounced (roundAnnouncement g (maxDuration g) (roundWinners g))
             (map (\<lambda>r. (id_sock (heap g r), name (heap g r))) (roundWinners g))
             (maxDuration g) (1 < length (roundWinners g)) \<in> set (outbox (endRoundOnServer g)) \<and>
         (\<forall>r. if r \<in> awarded g
              then tokens (heap (endRoundOnServer g) r) = tokens (heap g r) + 1 \<and>
                   time (heap (endRoundOnServer g) r) = time (heap g r) - maxDuration g
              else tokens (heap (endRoundOnServer g) r) = tokens (heap g r) \<and>
                   time (heap (endRoundOnServer g) r) = time (heap g r))"
proof -
  note sc = roundScan_spec[OF assms(2)]
  have d: "distinct (roundWinners g)"
    using assms(1) by (simp add: roundWinners_def contenders_def)
  have aw: "heap (awardWinners (maxDuration g) (roundWinners g) g) r =
            (if r \<in> awarded g then award (maxDuration g) (heap g r) else heap g r)" for r
    by (simp add: heap_awardWinners[OF d] awarded_def)
  show ?thesis
    by (simp add: sc endRoundOnServer_fields outbox_endRoundOnServer heap_endRoundOnServer aw)
qed

lemma roomXY_facts:
  "maxDuration roomXY = 7" "roundWinners roomXY = [1]" "awarded roomXY = {1}"
  "activePlayersInRound roomXY = [0, 1]"
  "roundHoldDuration (heap roomXY 0) = 4" "roundHoldDuration (heap roomXY 1) = 7"
  "tokens (heap roomXY 0) = 0" "tokens (heap roomXY 1) = 0"
  "time (heap roomXY 0) = 60" "time (heap roomXY 1) = 60"
  "roundHoldDuration (heap roomXY (Suc 0)) = 7" "tokens (heap roomXY (Suc 0)) = 0"
  "time (heap roomXY (Suc 0)) = 60"
  by (simp_all add: awarded_def roundWinners_def maxDuration_def contenders_def eligible_def
        roomXY_def playerX_def playerY_def)

theorem endRoundOnServer_winners_witness:
  "distinct (activePlayersInRound roomXY) \<and>
   0 \<le> roundHoldDuration (heap roomXY 0) \<and> 0 \<le> roundHoldDuration (heap roomXY 1) \<and>
   maxDuration roomXY = 7 \<and> snd (roundScan roomXY) = [1] \<and>
   tokens (heap (endRoundOnServer roomXY) 1) = 1 \<and> time (heap (endRoundOnServer roomXY) 1) = 53 \<and>
   tokens (heap (endRoundOnServer roomXY) 0) = 0 \<and> time (heap (endRoundOnServer roomXY) 0) = 60"
proof -
  have d: "distinct (activePlayersInRound roomXY)" by (simp add: roomXY_facts)
  have n: "\<forall>r \<in> set (activePlayersInRound roomXY). eligible roomXY r \<longrightarrow> 0 \<le> roundHoldDuration (heap roomXY r)"
    by (simp add: roomXY_def playerX_def playerY_def)
  from endRoundOnServer_winners[OF d n]
  have w: "snd (roundScan roomXY) = roundWinners roomXY"
    and e: "\<And>r. if r \<in> awarded roomXY
              then tokens (heap (endRoundOnServer roomXY) r) = tokens (heap roomXY r) + 1 \<and>
                   time (heap (endRoundOnServer roomXY) r) = time (heap roomXY r) - maxDuration roomXY
              else tokens (heap (endRoundOnServer roomXY) r) = tokens (heap roomXY r) \<and>
                   time (heap (endRoundOnServer roomXY) r) = time (heap roomXY r)"
    by blast+
  from e[of 0] e[of 1] w d show ?thesis by (simp add: roomXY_facts)
qed

section \<open>What one event can do to a player object\<close>

lemma playerHolding_heap_pred:
  assumes "\<And>p. P p \<Longrightarrow> 0 < time p \<Longrightarrow> \<not> isEliminated p \<Longrightarrow> \<not> isHoldingButton p \<Longrightarrow>
             P (p\<lparr>isHoldingButton := True\<rparr>)"
    and "\<And>p. P p \<Longrightarrow> P (resetForCountdown p)" and "P (heap g r)"
  shows "P (heap (playerHolding s g) r)"
proof (cases "find (\<lambda>r. id_sock (heap g r) = s) (players g)")
  case None
  then show ?thesis using assms(3) by (simp add: playerHolding_def)
next
  case (Some r0)
  let ?g1 = "broadcastPlayerStatusUpdate (modify r0 (\<lambda>p. p\<lparr>isHoldingButton := True\<rparr>) g)"
  have 1: "0 < time (heap g r0) \<Longrightarrow> \<not> isEliminated (heap g r0) \<Longrightarrow> \<not> isHoldingButton (heap g r0) \<Longrightarrow>
           P (heap ?g1 r)"
    using assms(1,3) by auto
  then have 2: "0 < time (heap g r0) \<Longrightarrow> \<not> isEliminated (heap g r0) \<Longrightarrow> \<not> isHoldingButton (heap g r0) \<Longrightarrow>
           P (heap (startPreRoundCountdown ?g1) r)"
    using assms(2) by (auto intro: startPreRoundCountdown_heap_pred)
  show ?thesis
    using Some assms(3) 1 2 by (auto simp: playerHolding_def Let_def)
qed









section \<open>Elimination\<close>





lemma roundScan_clearGameIntervals [simp]: "roundScan (clearGameIntervals g) = roundScan g"
  by (simp add: roundScan_def)






section \<open>Leaving during an active phase\<close>

lemma departed_insufficient:
  assumes "status g = PreCountdown \<or> status g = InRound" and "remaining s g \<noteq> []"
    and "length (filter (\<lambda>r. \<not> isEliminated (heap g r)) (remaining s g)) < 2"
  shows "departed s g =
           Some (broadcastPlayerStatusUpdate (gameEnded InsufficientPlayers (g\<lparr>players := remaining s g\<rparr>)))"
  using assms by (auto simp: departed_def Let_def remaining_def alivePlayers_def)

text \<open>
  C8. When a leave or a disconnect happens while the phase is \<open>PreCountdown\<close> or
  \<open>InRound\<close>, the room still has an occupant, and fewer than 2 non-eliminated players
  remain, the game goes to \<open>GameOver\<close> at once with the insufficient-players reason. The
  round is not resolved: no player object changes (no tokens, no time), no winner is
  announced and no next round is scheduled; both timers are cancelled. (A room whose last
  occupant leaves is deleted instead.)
\<close>

theorem departure_ends_game:
  assumes "status g = PreCountdown \<or> status g = InRound" and "remaining s g \<noteq> []"
    and "length (filter (\<lambda>r. \<not> isEliminated (heap g r)) (remaining s g)) < 2"
  shows "\<exists>g'. leaveRoom s g = Some g' \<and> disconnect s g = Some g' \<and>
           status g' = GameOver \<and> \<not> preRoundIntervalId g' \<and> \<not> roundTimerIntervalId g' \<and>
           players g' = remaining s g \<and> heap g' = heap g \<and> timeouts g' = timeouts g \<and>
           currentRound g' = currentRound g \<and>
           outbox g' = outbox g @
             [GameOverEvent ToRoom (Some InsufficientPlayers) (map (heap g) (remaining s g))
                (Some (finalWinnerOf (heap g) (remaining s g))),
              PlayerStatusUpdate (map (heap g) (remaining s g)) (currentRound g) (maxRounds g) GameOver]"
  using departed_insufficient[OF assms]
  by (simp add: leaveRoom_def disconnect_def gameEnded_def Let_def)

lemma roomXY_leave_facts:
  "status roomXY = InRound" "remaining ''x'' roomXY = [1]"
  "filter (\<lambda>r. \<not> isEliminated (heap roomXY r)) (remaining ''x'' roomXY) = [1]"
  "outbox roomXY = []" "timeouts roomXY = 0"
  by (simp_all add: remaining_def roomXY_def playerX_def playerY_def)

theorem departure_ends_game_witness:
  "status roomXY = InRound \<and> remaining ''x'' roomXY = [1] \<and>
   length (filter (\<lambda>r. \<not> isEliminated (heap roomXY r)) (remaining ''x'' roomXY)) = 1 \<and>
   disconnect ''x'' roomXY = leaveRoom ''x'' roomXY \<and>
   map_option status (disconnect ''x'' roomXY) = Some GameOver \<and>
   map_option heap (disconnect ''x'' roomXY) = Some (heap roomXY) \<and>
   map_option timeouts (disconnect ''x'' roomXY) = Some 0 \<and>
   map_option outbox (disconnect ''x'' roomXY) =
     Some [GameOverEvent ToRoom (Some InsufficientPlayers) [playerY]
             (Some (SingleWinner ''Y'' ''y'' 0 60)),
           PlayerStatusUpdate [playerY] 1 3 GameOver]"
proof -
  have f: "finalWinnerOf (heap roomXY) [Suc 0] = SingleWinner ''Y'' ''y'' 0 60"
    by (simp add: finalWinnerOf_def sortedAlive_def sort_by_def roomXY_def playerY_def)
  have h: "heap roomXY (Suc 0) = playerY" "currentRound roomXY = 1" "maxRounds roomXY = 3"
    "\<not> isEliminated playerY"
    by (simp_all add: roomXY_def playerY_def)
  from departure_ends_game[of roomXY "''x''"] show ?thesis
    by (auto simp: roomXY_leave_facts f h)
qed

section \<open>Arming the countdown\<close>

lemma armingCondition_code: "armingCondition g = shouldStartCountdown g"
proof (cases "length (alivePlayers g) = 1")
  case True
  then obtain x where "alivePlayers g = [x]" by (cases "alivePlayers g") auto
  then show ?thesis
    using True by (simp add: armingCondition_def shouldStartCountdown_def alivePlayers_def)
next
  case False
  then show ?thesis
    by (auto simp: armingCondition_def shouldStartCountdown_def alivePlayers_def Let_def list_all_iff)
qed

lemma shouldStartCountdown_cong:
  "players g' = players g \<Longrightarrow> heap g' = heap g \<Longrightarrow> shouldStartCountdown g' = shouldStartCountdown g"
  by (simp add: shouldStartCountdown_def alivePlayers_def)

lemma playerHolding_no_effect:
  assumes "\<not> takesEffect s g" "\<not> preRoundIntervalId g"
  shows "\<not> preRoundIntervalId (playerHolding s g)"
  using assms by (auto simp: playerHolding_def takesEffect_def split: option.splits)

lemma playerHolding_effect:
  assumes "takesEffect s g" "status g = Waiting \<or> status g = RoundEnded" "\<not> preRoundIntervalId g"
  shows "playerHolding s g =
           (if armingCondition (withHold s g)
            then armCountdown (broadcastPlayerStatusUpdate (withHold s g))
            else broadcastPlayerStatusUpdate (withHold s g))"
proof -
  from assms(1) obtain r where r: "find (\<lambda>r. id_sock (heap g r) = s) (players g) = Some r"
    "0 < time (heap g r)" "\<not> isEliminated (heap g r)" "\<not> isHoldingButton (heap g r)"
    by (auto simp: takesEffect_def split: option.splits)
  let ?h = "modify r (\<lambda>p. p\<lparr>isHoldingButton := True\<rparr>) g"
  let ?g1 = "broadcastPlayerStatusUpdate ?h"
  have w: "withHold s g = ?h" using r(1) by (simp add: withHold_def)
  have s1: "shouldStartCountdown ?g1 = armingCondition ?h"
    by (simp add: armingCondition_code shouldStartCountdown_cong[of ?g1 ?h])
  have a: "alivePlayers ?g1 = alivePlayers ?h" by (simp add: alivePlayers_def)
  have c: "shouldStartCountdown ?g1 =
           (if length (alivePlayers ?g1) = 1 then list_all (\<lambda>r. isHoldingButton (heap ?g1 r)) (alivePlayers ?g1)
            else length (alivePlayers ?g1) \<ge> 2 \<and> list_all (\<lambda>r. isHoldingButton (heap ?g1 r)) (alivePlayers ?g1))"
    by (simp add: shouldStartCountdown_def Let_def)
  have st: "startPreRoundCountdown ?g1 = (if shouldStartCountdown ?g1 then armCountdown ?g1 else ?g1)"
    using assms(2) by (auto simp: startPreRoundCountdown_def)
  have "playerHolding s g = (if shouldStartCountdown ?g1 then startPreRoundCountdown ?g1 else ?g1)"
    using r assms(2,3) unfolding c by (auto simp: playerHolding_def Let_def)
  then show ?thesis unfolding st s1 w by simp
qed

text \<open>
  C3 (as amended). In a room in phase \<open>Waiting\<close> or \<open>RoundEnded\<close> with no live countdown
  timer, a hold action starts the pre-round countdown if and only if it takes effect (the
  caller is a player of the room, has time left, is not eliminated and is not holding
  yet) and, with the caller's holding flag set, the arming condition holds over the
  non-eliminated players: with exactly one, that player is holding; with two or more, all
  of them are holding. With no non-eliminated player no countdown starts. When the
  countdown starts, the phase is \<open>PreCountdown\<close>, \<open>preRoundCountdown\<close> is 5 and every
  player's opted-out flag and round hold duration are reset.
\<close>

theorem playerHolding_arms_countdown:
  assumes "status g = Waiting \<or> status g = RoundEnded" and "\<not> preRoundIntervalId g"
  shows "(preRoundIntervalId (playerHolding s g) \<longleftrightarrow> takesEffect s g \<and> armingCondition (withHold s g)) \<and>
         (filter (\<lambda>r. \<not> isEliminated (heap g r)) (players g) = [] \<longrightarrow>
            \<not> preRoundIntervalId (playerHolding s g)) \<and>
         (preRoundIntervalId (playerHolding s g) \<longrightarrow>
            status (playerHolding s g) = PreCountdown \<and> preRoundCountdown (playerHolding s g) = 5 \<and>
            (\<forall>r \<in> set (players (playerHolding s g)).
               \<not> hasOptedOut (heap (playerHolding s g) r) \<and>
               roundHoldDuration (heap (playerHolding s g) r) = 0))"
proof (cases "takesEffect s g")
  case False
  then show ?thesis using assms(2) playerHolding_no_effect by blast
next
  case True
  note e = playerHolding_effect[OF True assms]
  from True obtain c where c: "find (\<lambda>r. id_sock (heap g r) = s) (players g) = Some c"
    "\<not> isEliminated (heap g c)"
    by (auto simp: takesEffect_def split: option.splits)
  then have "c \<in> set (players g)" by (auto dest: find_Some_in)
  with c(2) have n: "filter (\<lambda>r. \<not> isEliminated (heap g r)) (players g) \<noteq> []"
    by (auto simp: filter_empty_conv)
  have p: "preRoundIntervalId (withHold s g) = preRoundIntervalId g"
    by (simp add: withHold_def split: option.splits)
  show ?thesis
    using True assms(2) n
    by (auto simp: e p armCountdown_fields heap_armCountdown resetForCountdown_def)
qed

text \<open>
  Two instances with an eliminated player \<open>A\<close>, who is not holding. In the room of three,
  \<open>B\<close> is holding and the hold of \<open>C\<close> completes the condition over the two players left.
  In the room of two, \<open>B\<close> is the only player left and the hold of \<open>B\<close> starts the
  countdown.
\<close>

theorem playerHolding_arms_countdown_witness:
  "status threeWithOneOut = Waiting \<and> \<not> preRoundIntervalId threeWithOneOut \<and>
   isEliminated (heap threeWithOneOut 0) \<and> \<not> isHoldingButton (heap threeWithOneOut 0) \<and>
   takesEffect ''c'' threeWithOneOut \<and> armingCondition (withHold ''c'' threeWithOneOut) \<and>
   preRoundIntervalId (playerHolding ''c'' threeWithOneOut) \<and>
   status (playerHolding ''c'' threeWithOneOut) = PreCountdown \<and>
   preRoundCountdown (playerHolding ''c'' threeWithOneOut) = 5 \<and>
   \<not> takesEffect ''a'' threeWithOneOut \<and>
   \<not> preRoundIntervalId (playerHolding ''a'' threeWithOneOut) \<and>
   status twoWithOneOut = RoundEnded \<and> \<not> preRoundIntervalId twoWithOneOut \<and>
   isEliminated (heap twoWithOneOut 0) \<and> \<not> isHoldingButton (heap twoWithOneOut 0) \<and>
   takesEffect ''b'' twoWithOneOut \<and> armingCondition (withHold ''b'' twoWithOneOut) \<and>
   preRoundIntervalId (playerHolding ''b'' twoWithOneOut) \<and>
   players (playerHolding ''b'' twoWithOneOut) = [0, 1] \<and>
   roundHoldDuration (heap (playerHolding ''b'' twoWithOneOut) 0) = 0"
proof -
  have a: "status threeWithOneOut = Waiting \<or> status threeWithOneOut = RoundEnded"
    "\<not> preRoundIntervalId threeWithOneOut"
    "status twoWithOneOut = Waiting \<or> status twoWithOneOut = RoundEnded"
    "\<not> preRoundIntervalId twoWithOneOut"
    by (simp_all add: threeWithOneOut_facts twoWithOneOut_facts)
  have b: "takesEffect ''c'' threeWithOneOut" "armingCondition (withHold ''c'' threeWithOneOut)"
    "\<not> takesEffect ''a'' threeWithOneOut"
    "takesEffect ''b'' twoWithOneOut" "armingCondition (withHold ''b'' twoWithOneOut)"
    by (simp_all add: takesEffect_def armingCondition_def withHold_def
          threeWithOneOut_facts twoWithOneOut_facts)
  from playerHolding_arms_countdown[OF a(1,2), of "''c''"] b(1,2)
  have c: "preRoundIntervalId (playerHolding ''c'' threeWithOneOut)"
    "status (playerHolding ''c'' threeWithOneOut) = PreCountdown"
    "preRoundCountdown (playerHolding ''c'' threeWithOneOut) = 5"
    by blast+
  from playerHolding_arms_countdown[OF a(1,2), of "''a''"] b(3)
  have d: "\<not> preRoundIntervalId (playerHolding ''a'' threeWithOneOut)" by blast
  have p: "players (playerHolding ''b'' twoWithOneOut) = [0, 1]"
    by (simp add: playerHolding_frame twoWithOneOut_facts)
  from playerHolding_arms_countdown[OF a(3,4), of "''b''"] b(4,5)
  have f: "preRoundIntervalId (playerHolding ''b'' twoWithOneOut)"
    "\<forall>r \<in> set (players (playerHolding ''b'' twoWithOneOut)).
       \<not> hasOptedOut (heap (playerHolding ''b'' twoWithOneOut) r) \<and>
       roundHoldDuration (heap (playerHolding ''b'' twoWithOneOut) r) = 0"
    by blast+
  from f(2) p have g: "roundHoldDuration (heap (playerHolding ''b'' twoWithOneOut) 0) = 0"
    by simp
  have h: "isEliminated (heap threeWithOneOut 0)" "\<not> isHoldingButton (heap threeWithOneOut 0)"
    "isEliminated (heap twoWithOneOut 0)" "\<not> isHoldingButton (heap twoWithOneOut 0)"
    "status threeWithOneOut = Waiting" "status twoWithOneOut = RoundEnded"
    by (simp_all add: threeWithOneOut_facts twoWithOneOut_facts)
  from a(2,4) b c d f(1) p g h show ?thesis by blast
qed

text \<open>
  The claim as stated fails for a hold action that does not take effect. Three players
  wait for round 1; \<open>A\<close> and \<open>B\<close> hold and \<open>C\<close>, who does not, leaves (a departure in phase
  \<open>Waiting\<close> starts nothing). The arming condition now holds over the two players of the
  room and no countdown timer is live, but the hold action of \<open>A\<close>, who is holding
  already, is ignored: the room after it is the same, without a countdown.
\<close>

theorem ignored_hold_counterexample:
  "map_option armingView (play ''a'' ''A'' 60 3
      [JoinRoom ''b'' ''B'', JoinRoom ''c'' ''C'', PlayerHolding ''a'', PlayerHolding ''b'',
       LeaveRoom ''c'']) = Some (Waiting, False, True) \<and>
   map_option armingView (play ''a'' ''A'' 60 3
      [JoinRoom ''b'' ''B'', JoinRoom ''c'' ''C'', PlayerHolding ''a'', PlayerHolding ''b'',
       LeaveRoom ''c'', PlayerHolding ''a'']) = Some (Waiting, False, True)"
  by code_simp

section \<open>The final winner\<close>

lemma compareFinal_ranks: "compareFinal a b \<le> 0 \<longleftrightarrow> ranksAtLeast a b"
  by (auto simp: compareFinal_def ranksAtLeast_def)

lemma ranksAtLeast_trans: "ranksAtLeast a b \<Longrightarrow> ranksAtLeast b c \<Longrightarrow> ranksAtLeast a c"
  by (auto simp: ranksAtLeast_def)

lemma ranksAtLeast_total: "ranksAtLeast a b \<or> ranksAtLeast b a"
  by (auto simp: ranksAtLeast_def)

lemma ranksAtLeast_refl: "ranksAtLeast a a"
  by (simp add: ranksAtLeast_def)

lemma set_insort_by: "set (insort_by c x ys) = insert x (set ys)"
  by (induction ys) auto

lemma set_sort_by: "set (sort_by c xs) = set xs"
  by (induction xs) (simp_all add: sort_by_def set_insort_by)

lemma insort_by_nonempty: "insort_by c x ys \<noteq> []"
  by (cases ys) auto

lemma sort_by_Cons: "sort_by c (x # xs) = insort_by c x (sort_by c xs)"
  by (simp add: sort_by_def)

lemma hd_insort_by: "hd (insort_by c x ys) = (if ys = [] \<or> c x (hd ys) \<le> 0 then x else hd ys)"
  by (cases ys) auto

lemma hd_sortedAlive:
  assumes "xs \<noteq> []"
  shows "hd (sortedAlive h xs) \<in> set xs \<and> (\<forall>r \<in> set xs. ranksAtLeast (h (hd (sortedAlive h xs))) (h r))"
  using assms
proof (induction xs)
  case Nil
  then show ?case by simp
next
  case (Cons x xs)
  let ?c = "\<lambda>a b. compareFinal (h a) (h b)"
  show ?case
  proof (cases "xs = []")
    case True
    then show ?thesis by (simp add: sortedAlive_def sort_by_def ranksAtLeast_refl)
  next
    case False
    with Cons.IH have ih: "hd (sort_by ?c xs) \<in> set xs"
      "\<forall>r \<in> set xs. ranksAtLeast (h (hd (sort_by ?c xs))) (h r)"
      by (simp_all add: sortedAlive_def)
    have ne: "sort_by ?c xs \<noteq> []" using False set_sort_by[of ?c xs] by auto
    show ?thesis
    proof (cases "compareFinal (h x) (h (hd (sort_by ?c xs))) \<le> 0")
      case True
      then have hd: "hd (sortedAlive h (x # xs)) = x"
        using ne by (simp add: sortedAlive_def sort_by_Cons hd_insort_by)
      from True have "ranksAtLeast (h x) (h (hd (sort_by ?c xs)))" by (simp add: compareFinal_ranks)
      with ih(2) have "\<forall>r \<in> set xs. ranksAtLeast (h x) (h r)" by (blast intro: ranksAtLeast_trans)
      then show ?thesis unfolding hd by (simp add: ranksAtLeast_refl)
    next
      case False
      then have hd: "hd (sortedAlive h (x # xs)) = hd (sort_by ?c xs)"
        using ne by (simp add: sortedAlive_def sort_by_Cons hd_insort_by)
      from False have "ranksAtLeast (h (hd (sort_by ?c xs))) (h x)"
        using ranksAtLeast_total[of "h x"] by (auto simp: compareFinal_ranks)
      with ih show ?thesis unfolding hd by simp
    qed
  qed
qed

text \<open>The sort is stable: players with equal tokens and time keep their join order.\<close>

lemma filter_insort_by_tied:
  assumes "\<And>a b. P a \<Longrightarrow> P b \<Longrightarrow> c a b \<le> 0"
  shows "filter P (insort_by c x ys) = filter P (x # ys)"
proof (induction ys)
  case Nil
  show ?case by simp
next
  case (Cons y ys)
  show ?case
  proof (cases "c x y \<le> 0")
    case True
    then show ?thesis by simp
  next
    case False
    then have "\<not> (P x \<and> P y)" using assms by blast
    with False Cons show ?thesis by auto
  qed
qed

lemma filter_sort_by_tied:
  assumes "\<And>a b. P a \<Longrightarrow> P b \<Longrightarrow> c a b \<le> 0"
  shows "filter P (sort_by c xs) = filter P xs"
  by (induction xs) (simp_all add: sort_by_Cons filter_insort_by_tied[OF assms] sort_by_def)

lemma tied_sortedAlive:
  "filter (\<lambda>r. tokens (h r) = k \<and> time (h r) = t) (sortedAlive h xs) =
   filter (\<lambda>r. tokens (h r) = k \<and> time (h r) = t) xs"
  unfolding sortedAlive_def
  by (rule filter_sort_by_tied) (simp add: compareFinal_def)

lemma finalWinnerOf_spec:
  assumes "alivePlayers g \<noteq> []"
  shows "finalWinnerOf (heap g) (players g) =
           (if length (tiedWithTop g) > 1 then
              TiedWinners (map (\<lambda>r. name (heap g r)) (tiedWithTop g))
                (map (\<lambda>r. (id_sock (heap g r), name (heap g r), tokens (heap g r), time (heap g r)))
                   (tiedWithTop g))
            else SingleWinner (name (heap g (topPlayer g))) (id_sock (heap g (topPlayer g)))
                   (tokens (heap g (topPlayer g))) (time (heap g (topPlayer g))))"
  using assms
  by (simp add: finalWinnerOf_def Let_def tied_sortedAlive tiedWithTop_def topPlayer_def
        alivePlayers_def)

text \<open>
  C9. When the game ends, whatever the reason, and a non-eliminated player exists: the
  top-ranked player is a non-eliminated player whom no non-eliminated player precedes in
  the order by tokens descending, then time descending. This player is reported as the
  single winner unless several non-eliminated players share both its tokens and its time,
  in which case that whole set is reported as a tie. The game-over broadcast carries the
  standings of all players of the room, eliminated ones included.
\<close>

theorem gameEnded_ranking:
  assumes "alivePlayers g \<noteq> []"
  shows "topPlayer g \<in> set (alivePlayers g) \<and>
         (\<forall>r \<in> set (alivePlayers g). ranksAtLeast (heap g (topPlayer g)) (heap g r)) \<and>
         status (gameEnded why g) = GameOver \<and>
         outbox (gameEnded why g) = outbox g @
           [GameOverEvent ToRoom (Some why) (map (heap g) (players g))
              (Some (if length (tiedWithTop g) > 1 then
                       TiedWinners (map (\<lambda>r. name (heap g r)) (tiedWithTop g))
                         (map (\<lambda>r. (id_sock (heap g r), name (heap g r), tokens (heap g r),
                                     time (heap g r))) (tiedWithTop g))
                     else SingleWinner (name (heap g (topPlayer g))) (id_sock (heap g (topPlayer g)))
                            (tokens (heap g (topPlayer g))) (time (heap g (topPlayer g)))))]"
proof -
  have "endsGame why g (gameEnded why g)" by (rule gameEnded_endsGame)
  then have o: "outbox (gameEnded why g) = outbox g @
      [GameOverEvent ToRoom (Some why) (map (heap g) (players g))
         (Some (finalWinnerOf (heap g) (players g)))]"
    by (simp add: endsGame_def)
  show ?thesis
    using hd_sortedAlive[OF assms, of "heap g"]
    by (simp add: o finalWinnerOf_spec[OF assms] topPlayer_def)
qed


theorem gameEnded_ranking_witness:
  "alivePlayers roomAB = [0, 1] \<and> topPlayer roomAB = 0 \<and>
   ranksAtLeast (heap roomAB 0) (heap roomAB 1) \<and>
   outbox (gameEnded RoundsExhausted roomAB) =
     [GameOverEvent ToRoom (Some RoundsExhausted) [playerA, playerB]
        (Some (SingleWinner ''A'' ''a'' 1 53))] \<and>
   alivePlayers roomPQR = [0, 1] \<and>
   outbox (gameEnded RoundsExhausted roomPQR) =
     [GameOverEvent ToRoom (Some RoundsExhausted) [playerP, playerQ, playerR]
        (Some (TiedWinners [''P'', ''Q''] [(''p'', ''P'', 2, 30), (''q'', ''Q'', 2, 30)]))]"
proof -
  have a: "alivePlayers roomAB = [0, 1]" "alivePlayers roomPQR = [0, 1]" by code_simp+
  then have n: "alivePlayers roomAB \<noteq> []" "alivePlayers roomPQR \<noteq> []" by simp_all
  have t: "topPlayer roomAB = 0" "tiedWithTop roomAB = [0]" "tiedWithTop roomPQR = [0, 1]"
    "topPlayer roomPQR = 0"
    by code_simp+
  have h: "map (heap roomAB) (players roomAB) = [playerA, playerB]"
    "map (heap roomPQR) (players roomPQR) = [playerP, playerQ, playerR]"
    "outbox roomAB = []" "outbox roomPQR = []"
    by (simp_all add: roomAB_def roomPQR_def)
  have v: "heap roomAB 0 = playerA" "heap roomPQR 0 = playerP" "heap roomPQR (Suc 0) = playerQ"
    by (simp_all add: roomAB_def roomPQR_def)
  from gameEnded_ranking[OF n(1), of RoundsExhausted] gameEnded_ranking[OF n(2), of RoundsExhausted]
  show ?thesis
    by (simp add: a t h v playerA_def playerP_def playerQ_def)
qed

section \<open>Releasing during the countdown\<close>

text \<open>
  C5 (as amended). In a room in phase \<open>PreCountdown\<close> with a live countdown timer, when a
  currently holding player releases, the player's holding flag is cleared and
  \<open>hasOptedOut\<close> is set to true; the countdown timer is not cancelled: it stays live, the
  phase stays \<open>PreCountdown\<close>, the countdown value is unchanged and nothing is scheduled.
\<close>

theorem release_during_countdown:
  assumes "status g = PreCountdown" and "preRoundIntervalId g"
    and "find (\<lambda>r. id_sock (heap g r) = s) (players g) = Some r" and "isHoldingButton (heap g r)"
  shows "\<exists>g'. playerReleased s g = Some g' \<and>
           preRoundIntervalId g' \<and> status g' = PreCountdown \<and>
           preRoundCountdown g' = preRoundCountdown g \<and> timeouts g' = timeouts g \<and>
           roundTimerIntervalId g' = roundTimerIntervalId g \<and> players g' = players g \<and>
           heap g' = (heap g)(r := (heap g r)\<lparr>isHoldingButton := False, hasOptedOut := True\<rparr>) \<and>
           outbox g' = outbox g @
             [PlayerStatusUpdate
                (map ((heap g)(r := (heap g r)\<lparr>isHoldingButton := False, hasOptedOut := True\<rparr>)) (players g))
                (currentRound g) (maxRounds g) PreCountdown,
              Message (ToSocket s) GaveUpRound]"
  using assms by (simp add: playerReleased_def Let_def)

lemma countingDown_facts:
  "play ''a'' ''A'' 60 3 [PlayerHolding ''a''] = Some countingDown"
  "status countingDown = PreCountdown" "preRoundIntervalId countingDown"
  "players countingDown = [0]" "preRoundCountdown countingDown = 5"
  "heap countingDown 0 = \<lparr>id_sock = ''a'', name = ''A'', time = 60, tokens = 0, isHoldingButton = True,
           hasOptedOut = False, roundHoldDuration = 0, isEliminated = False\<rparr>"
proof -
  have "map_option (\<lambda>g. (status g, preRoundIntervalId g, players g, preRoundCountdown g, heap g 0))
          (play ''a'' ''A'' 60 3 [PlayerHolding ''a'']) =
        Some (PreCountdown, True, [0], 5,
          \<lparr>id_sock = ''a'', name = ''A'', time = 60, tokens = 0, isHoldingButton = True,
           hasOptedOut = False, roundHoldDuration = 0, isEliminated = False\<rparr>)"
    by code_simp
  from the_map_option[OF this]
  show "play ''a'' ''A'' 60 3 [PlayerHolding ''a''] = Some countingDown"
  "status countingDown = PreCountdown" "preRoundIntervalId countingDown"
  "players countingDown = [0]" "preRoundCountdown countingDown = 5"
  "heap countingDown 0 = \<lparr>id_sock = ''a'', name = ''A'', time = 60, tokens = 0, isHoldingButton = True,
           hasOptedOut = False, roundHoldDuration = 0, isEliminated = False\<rparr>"
    by (simp_all add: countingDown_def)
qed

theorem release_during_countdown_witness:
  "status countingDown = PreCountdown \<and> preRoundIntervalId countingDown \<and>
   find (\<lambda>r. id_sock (heap countingDown r) = ''a'') (players countingDown) = Some 0 \<and>
   isHoldingButton (heap countingDown 0) \<and>
   map_option preRoundIntervalId (playerReleased ''a'' countingDown) = Some True \<and>
   map_option status (playerReleased ''a'' countingDown) = Some PreCountdown \<and>
   map_option preRoundCountdown (playerReleased ''a'' countingDown) = Some 5 \<and>
   map_option standings (playerReleased ''a'' countingDown) =
     Some [\<lparr>id_sock = ''a'', name = ''A'', time = 60, tokens = 0, isHoldingButton = False,
             hasOptedOut = True, roundHoldDuration = 0, isEliminated = False\<rparr>]"
proof -
  have f: "find (\<lambda>r. id_sock (heap countingDown r) = ''a'') (players countingDown) = Some 0"
    by (simp add: countingDown_facts)
  have h: "isHoldingButton (heap countingDown 0)" by (simp add: countingDown_facts)
  from release_during_countdown[OF countingDown_facts(2,3) f h]
  show ?thesis
    by (auto simp: countingDown_facts standings_def)
qed

text \<open>
  The claim as stated fails: the creator of a room holds (the countdown starts) and
  releases; the countdown timer is still live.
\<close>

theorem release_keeps_timer_counterexample:
  "map_option view (play ''a'' ''A'' 60 3 [PlayerHolding ''a'']) =
     Some (PreCountdown, True, False, 0,
       [\<lparr>id_sock = ''a'', name = ''A'', time = 60, tokens = 0, isHoldingButton = True,
          hasOptedOut = False, roundHoldDuration = 0, isEliminated = False\<rparr>]) \<and>
   map_option view (play ''a'' ''A'' 60 3 [PlayerHolding ''a'', PlayerReleased ''a'']) =
     Some (PreCountdown, True, False, 0,
       [\<lparr>id_sock = ''a'', name = ''A'', time = 60, tokens = 0, isHoldingButton = False,
          hasOptedOut = True, roundHoldDuration = 0, isEliminated = False\<rparr>])"
  by code_simp

section \<open>When the opted-out flag is set\<close>

lemma optedOut_checkAllReleased:
  "hasOptedOut (heap (checkAllReleasedOnServer g) r) \<Longrightarrow> hasOptedOut (heap g r)"
  using checkAllReleasedOnServer_heap_pred[where P = "\<lambda>p. \<not> hasOptedOut p" and g = g and r = r]
  by (auto simp: award_def releaseAll_def)

lemma optedOut_new_only_if:
  assumes "distinct (players g)" "handle e g = Some g'"
    and "\<not> hasOptedOut (heap g r)" "hasOptedOut (heap g' r)"
  shows "forfeits e g r"
proof (cases e)
  case (JoinRoom s n)
  show ?thesis
  proof (cases "joinable (Some g) n")
    case True
    then have False
      using assms(2-4) JoinRoom
      by (auto simp: joinRoom_def Let_def joinReplay_fields newPlayer_def split: if_splits list.splits)
    then show ?thesis ..
  next
    case False
    from joinRoom_rejects(2)[OF False, of s] assms(2-4) JoinRoom show ?thesis
      by (cases "joinRoom (Some g) s n") (auto split: reply.splits)
  qed
next
  case (LeaveRoom s)
  with assms(2) have "departed s g = Some g'" by (simp add: leaveRoom_def)
  from departed_heap_pred[OF this, where P = "\<lambda>p. \<not> hasOptedOut p" and r = r] assms(3,4)
  show ?thesis by (auto simp: resetForCountdown_def award_def releaseAll_def)
next
  case (Disconnect s)
  with assms(2) have "departed s g = Some g'" by (simp add: disconnect_def)
  from departed_heap_pred[OF this, where P = "\<lambda>p. \<not> hasOptedOut p" and r = r] assms(3,4)
  show ?thesis by (auto simp: resetForCountdown_def award_def releaseAll_def)
next
  case (PlayerHolding s)
  from playerHolding_heap_pred[where P = "\<lambda>p. \<not> hasOptedOut p" and g = g and r = r and s = s]
    assms(2-4) PlayerHolding
  show ?thesis by (auto simp: resetForCountdown_def)
next
  case (PlayerReleased s)
  with assms(2) have pr: "playerReleased s g = Some g'" by simp
  then obtain r0 where f: "find (\<lambda>q. id_sock (heap g q) = s) (players g) = Some r0"
    by (auto simp: playerReleased_def split: option.splits)
  then have m: "r0 \<in> set (players g)" by (auto dest: find_Some_in)
  show ?thesis
  proof (cases "isHoldingButton (heap g r0) \<and> status g = PreCountdown \<and> preRoundIntervalId g")
    case True
    with pr f have "heap g' = (heap g)(r0 := (heap g r0)\<lparr>isHoldingButton := False, hasOptedOut := True\<rparr>)"
      by (auto simp: playerReleased_def Let_def)
    with assms(3,4) have "r = r0" by (auto split: if_splits)
    with True f m assms(3) PlayerReleased show ?thesis by (simp add: forfeits_def)
  next
    case False
    let ?g1 = "modify r0 (\<lambda>p. p\<lparr>isHoldingButton := False\<rparr>) g"
    have n1: "\<not> hasOptedOut (heap ?g1 r)" using assms(3) by auto
    from False pr f have "g' = g \<or> g' = broadcastPlayerStatusUpdate ?g1 \<or>
        g' = checkAllReleasedOnServer (broadcastPlayerStatusUpdate ?g1)"
      by (auto simp: playerReleased_def Let_def split: if_splits)
    with assms(3,4) n1 have False
      by (auto dest: optedOut_checkAllReleased)
    then show ?thesis ..
  qed
next
  case CountdownTick
  with assms(2) have "g' = countdownTick g" by simp
  with assms(3,4) CountdownTick show ?thesis
    by (auto simp: forfeits_def heap_countdownTick optOutAtEnd_def split: if_splits)
next
  case RoundTick
  with assms(2) have "g' = checkAllReleasedOnServer (tickUpdates g)" by (simp add: roundTick_def)
  with assms(4) have "hasOptedOut (heap (tickUpdates g) r)" by (auto dest: optedOut_checkAllReleased)
  with assms(1,3) RoundTick show ?thesis
    by (auto simp: forfeits_def heap_tickUpdates tickEffect_def forceRelease_def split: if_splits)
next
  case StartNewRoundTimeout
  from startNewRound_heap_pred[where P = "\<lambda>p. \<not> hasOptedOut p" and r = r
      and g = "g\<lparr>timeouts := timeouts g - 1\<rparr>"] assms(2-4) StartNewRoundTimeout
  show ?thesis by (auto simp: resetForRound_def)
qed

lemma optedOut_if:
  assumes "distinct (players g)" "handle e g = Some g'" "forfeits e g r"
  shows "hasOptedOut (heap g' r) \<or> (e = RoundTick \<and> status g = InRound \<and> status g' = RoundEnded)"
proof (cases e)
  case CountdownTick
  with assms(2) have "g' = countdownTick g" by simp
  with assms(3) CountdownTick show ?thesis
    by (auto simp: forfeits_def heap_countdownTick optOutAtEnd_def)
next
  case RoundTick
  with assms(2) have g': "g' = checkAllReleasedOnServer (tickUpdates g)" by (simp add: roundTick_def)
  from assms(1,3) RoundTick have o: "hasOptedOut (heap (tickUpdates g) r)"
    by (auto simp: forfeits_def heap_tickUpdates tickEffect_def forceRelease_def)
  show ?thesis
  proof (cases "g' = tickUpdates g")
    case True
    with o show ?thesis by simp
  next
    case False
    with g' have "status (tickUpdates g) = InRound" "g' = endRoundOnServer (clearGameIntervals (tickUpdates g))"
      by (auto simp: checkAllReleasedOnServer_def split: if_splits)
    then show ?thesis using RoundTick by (simp add: tickUpdates_fields endRoundOnServer_fields)
  qed
next
  case (PlayerReleased s)
  with assms(2,3) show ?thesis
    by (auto simp: forfeits_def playerReleased_def Let_def)
qed (insert assms(3), simp_all add: forfeits_def)


lemma optedOut_endRoundOnServer:
  "hasOptedOut (heap (endRoundOnServer g) r) = (r \<notin> set (players g) \<and> hasOptedOut (heap g r))"
proof -
  have "hasOptedOut (heap (awardWinners m ws g) r) = hasOptedOut (heap g r)" for m ws
    by (rule awardWinners_heap_pred[where P = "\<lambda>p. hasOptedOut p = hasOptedOut (heap g r)"])
       (simp_all add: award_def)
  then show ?thesis by (simp add: heap_endRoundOnServer releaseAll_def)
qed

lemma playerReleased_in_round:
  assumes "playerReleased s g = Some g'" and "status g = InRound"
  shows "(status g' = InRound \<and> (\<forall>r. hasOptedOut (heap g' r) = hasOptedOut (heap g r))) \<or>
         (status g' = RoundEnded \<and>
          (\<forall>r. hasOptedOut (heap g' r) = (r \<notin> set (players g) \<and> hasOptedOut (heap g r))))"
proof -
  from assms(1) obtain r0 where f: "find (\<lambda>q. id_sock (heap g q) = s) (players g) = Some r0"
    by (auto simp: playerReleased_def split: option.splits)
  show ?thesis
  proof (cases "isHoldingButton (heap g r0)")
    case False
    with assms f have "g' = g" by (simp add: playerReleased_def)
    with assms(2) show ?thesis by simp
  next
    case True
    let ?g2 = "broadcastPlayerStatusUpdate (modify r0 (\<lambda>p. p\<lparr>isHoldingButton := False\<rparr>) g)"
    have o: "hasOptedOut (heap ?g2 r) = hasOptedOut (heap g r)" for r by simp
    from True assms f have g': "g' = checkAllReleasedOnServer ?g2"
      by (simp add: playerReleased_def Let_def)
    show ?thesis
    proof (cases "list_all (released ?g2) (activePlayersInRound ?g2)")
      case False
      with g' have "g' = ?g2" by (simp add: checkAllReleasedOnServer_def)
      with assms(2) o show ?thesis by simp
    next
      case True
      with g' assms(2) have e: "g' = endRoundOnServer (clearGameIntervals ?g2)"
        by (simp add: checkAllReleasedOnServer_def)
      have "status g' = RoundEnded" unfolding e by (simp add: endRoundOnServer_fields)
      moreover have "hasOptedOut (heap g' r) = (r \<notin> set (players g) \<and> hasOptedOut (heap g r))" for r
        unfolding e optedOut_endRoundOnServer by simp
      ultimately show ?thesis by blast
    qed
  qed
qed

text \<open>
  C6 (as amended). Within one event, a player's \<open>hasOptedOut\<close> turns from false to true in
  exactly three cases: the countdown ends and the player (not eliminated) is not holding or
  has no time left; the bidding tick exhausts the holding player's budget; or the holding
  player releases while the countdown timer is live in phase \<open>PreCountdown\<close>. In each of
  these cases the flag is set (a bidding tick that also resolves the round resets it with
  everybody else's). A release during \<open>InRound\<close> sets nobody's flag: either the round goes
  on and every player's flag is what it was, or the release resolves the round (the phase
  becomes \<open>RoundEnded\<close>) and the flag of every player of the room is reset to false. When a
  new round starts, the flag of every player of the room is reset. The room's player
  references are distinct, as they are in every reachable room.
\<close>

theorem optedOut_cases:
  assumes "distinct (players g)" and "handle e g = Some g'"
  shows "(\<forall>r. \<not> hasOptedOut (heap g r) \<and> hasOptedOut (heap g' r) \<longrightarrow> forfeits e g r) \<and>
         (\<forall>r. forfeits e g r \<longrightarrow>
              hasOptedOut (heap g' r) \<or> (e = RoundTick \<and> status g = InRound \<and> status g' = RoundEnded)) \<and>
         (\<forall>s. e = PlayerReleased s \<and> status g = InRound \<longrightarrow>
              (status g' = InRound \<and> (\<forall>r. hasOptedOut (heap g' r) = hasOptedOut (heap g r))) \<or>
              (status g' = RoundEnded \<and>
               (\<forall>r. hasOptedOut (heap g' r) = (r \<notin> set (players g) \<and> hasOptedOut (heap g r))))) \<and>
         (e = StartNewRoundTimeout \<and> currentRound g' = currentRound g + 1 \<longrightarrow>
              (\<forall>r \<in> set (players g'). \<not> hasOptedOut (heap g' r)))"
proof -
  have 1: "\<forall>r. \<not> hasOptedOut (heap g r) \<and> hasOptedOut (heap g' r) \<longrightarrow> forfeits e g r"
    using optedOut_new_only_if[OF assms] by blast
  have 2: "\<forall>r. forfeits e g r \<longrightarrow>
              hasOptedOut (heap g' r) \<or> (e = RoundTick \<and> status g = InRound \<and> status g' = RoundEnded)"
    using optedOut_if[OF assms] by blast
  have 3: "\<forall>s. e = PlayerReleased s \<and> status g = InRound \<longrightarrow>
              (status g' = InRound \<and> (\<forall>r. hasOptedOut (heap g' r) = hasOptedOut (heap g r))) \<or>
              (status g' = RoundEnded \<and>
               (\<forall>r. hasOptedOut (heap g' r) = (r \<notin> set (players g) \<and> hasOptedOut (heap g r))))"
  proof (intro allI impI)
    fix s assume a: "e = PlayerReleased s \<and> status g = InRound"
    with assms(2) have "playerReleased s g = Some g'" by simp
    from playerReleased_in_round[OF this] a
    show "(status g' = InRound \<and> (\<forall>r. hasOptedOut (heap g' r) = hasOptedOut (heap g r))) \<or>
          (status g' = RoundEnded \<and>
           (\<forall>r. hasOptedOut (heap g' r) = (r \<notin> set (players g) \<and> hasOptedOut (heap g r))))"
      by blast
  qed
  have 4: "e = StartNewRoundTimeout \<and> currentRound g' = currentRound g + 1 \<longrightarrow>
              (\<forall>r \<in> set (players g'). \<not> hasOptedOut (heap g' r))"
  proof
    assume a: "e = StartNewRoundTimeout \<and> currentRound g' = currentRound g + 1"
    let ?g0 = "g\<lparr>timeouts := timeouts g - 1\<rparr>"
    from a assms(2) have g': "g' = startNewRound ?g0" by simp
    with a have "startNewRound ?g0 = beginNextRound ?g0"
      by (auto simp: startNewRound_def Let_def split: if_splits)
    with g' show "\<forall>r \<in> set (players g'). \<not> hasOptedOut (heap g' r)"
      by (simp add: beginNextRound_fields heap_beginNextRound resetForRound_def)
  qed
  from 1 2 3 4 show ?thesis by blast
qed

lemma bidding_facts:
  "play ''a'' ''A'' 60 3
     ([JoinRoom ''b'' ''B'', PlayerHolding ''a'', PlayerHolding ''b''] @
      replicate 5 CountdownTick @ [RoundTick]) = Some bidding"
  "status bidding = InRound" "players bidding = [0, 1]" "\<not> hasOptedOut (heap bidding 0)"
proof -
  have "map_option (\<lambda>g. (status g, players g, hasOptedOut (heap g 0)))
          (play ''a'' ''A'' 60 3
            ([JoinRoom ''b'' ''B'', PlayerHolding ''a'', PlayerHolding ''b''] @
             replicate 5 CountdownTick @ [RoundTick])) = Some (InRound, [0, 1], False)"
    by code_simp
  from the_map_option[OF this]
  show "play ''a'' ''A'' 60 3
     ([JoinRoom ''b'' ''B'', PlayerHolding ''a'', PlayerHolding ''b''] @
      replicate 5 CountdownTick @ [RoundTick]) = Some bidding"
  "status bidding = InRound" "players bidding = [0, 1]" "\<not> hasOptedOut (heap bidding 0)"
    by (simp_all add: bidding_def)
qed

lemma biddingAlone_facts:
  "status biddingAlone = InRound" "players biddingAlone = [0, Suc 0]"
  "hasOptedOut (heap biddingAlone (Suc 0))"
proof -
  have "map_option (\<lambda>g. (status g, players g, hasOptedOut (heap g (Suc 0))))
          (play ''a'' ''A'' 60 3
            ([JoinRoom ''b'' ''B'', PlayerHolding ''a'', PlayerHolding ''b'', PlayerReleased ''b''] @
             replicate 5 CountdownTick)) = Some (InRound, [0, Suc 0], True)"
    by code_simp
  from the_map_option[OF this]
  show "status biddingAlone = InRound" "players biddingAlone = [0, Suc 0]"
    "hasOptedOut (heap biddingAlone (Suc 0))"
    by (simp_all add: biddingAlone_def)
qed

text \<open>
  Three instances: the release during the countdown sets the flag of \<open>A\<close>; the release of
  \<open>A\<close> in the bidding phase, while \<open>B\<close> holds on, leaves it false; and the release of \<open>A\<close>,
  who is bidding alone, resolves the round and resets the flag of \<open>B\<close>, who had opted out.
\<close>

theorem optedOut_cases_witness:
  "distinct (players countingDown) \<and> forfeits (PlayerReleased ''a'') countingDown 0 \<and>
   map_option (\<lambda>g. hasOptedOut (heap g 0)) (handle (PlayerReleased ''a'') countingDown) = Some True \<and>
   distinct (players bidding) \<and> status bidding = InRound \<and> \<not> hasOptedOut (heap bidding 0) \<and>
   map_option (\<lambda>g. (status g, hasOptedOut (heap g 0))) (handle (PlayerReleased ''a'') bidding) =
     Some (InRound, False) \<and>
   distinct (players biddingAlone) \<and> status biddingAlone = InRound \<and>
   hasOptedOut (heap biddingAlone 1) \<and>
   map_option (\<lambda>g. (status g, hasOptedOut (heap g 1))) (handle (PlayerReleased ''a'') biddingAlone) =
     Some (RoundEnded, False)"
proof -
  have d: "distinct (players countingDown)" "distinct (players bidding)"
    "distinct (players biddingAlone)"
    by (simp_all add: countingDown_facts bidding_facts biddingAlone_facts)
  have f: "forfeits (PlayerReleased ''a'') countingDown 0"
    by (simp add: forfeits_def countingDown_facts)
  have "map_option status (playerReleased ''a'' countingDown) = Some PreCountdown"
    unfolding countingDown_def by code_simp
  from the_map_option[OF this] obtain g1 where g1: "handle (PlayerReleased ''a'') countingDown = Some g1"
    by auto
  have "map_option status (playerReleased ''a'' bidding) = Some InRound"
    unfolding bidding_def by code_simp
  from the_map_option[OF this] obtain g2 where g2: "handle (PlayerReleased ''a'') bidding = Some g2"
    "status g2 = InRound"
    by auto
  have "map_option status (playerReleased ''a'' biddingAlone) = Some RoundEnded"
    unfolding biddingAlone_def by code_simp
  from the_map_option[OF this] obtain g3 where g3: "handle (PlayerReleased ''a'') biddingAlone = Some g3"
    "status g3 = RoundEnded"
    by auto
  from optedOut_cases[OF d(1) g1] f have o1: "hasOptedOut (heap g1 0)" by blast
  from optedOut_cases[OF d(2) g2(1)] bidding_facts(2,4) g2(2)
  have o2: "\<not> hasOptedOut (heap g2 0)" by auto
  from optedOut_cases[OF d(3) g3(1)] biddingAlone_facts g3(2)
  have o3: "\<not> hasOptedOut (heap g3 (Suc 0))" by auto
  from d f g1 g2 g3 o1 o2 o3 bidding_facts(2,4) biddingAlone_facts show ?thesis by simp
qed

text \<open>
  The claim as stated fails: two players enter the bidding phase, and after one second
  \<open>A\<close> releases; \<open>A\<close>'s \<open>hasOptedOut\<close> is still false (and the round goes on for \<open>B\<close>).
\<close>

theorem release_in_round_counterexample:
  "map_option view (play ''a'' ''A'' 60 3
      ([JoinRoom ''b'' ''B'', PlayerHolding ''a'', PlayerHolding ''b''] @
       replicate 5 CountdownTick @ [RoundTick, PlayerReleased ''a''])) =
     Some (InRound, False, True, 0,
       [\<lparr>id_sock = ''a'', name = ''A'', time = 60, tokens = 0, isHoldingButton = False,
          hasOptedOut = False, roundHoldDuration = 1, isEliminated = False\<rparr>,
        \<lparr>id_sock = ''b'', name = ''B'', time = 60, tokens = 0, isHoldingButton = True,
          hasOptedOut = False, roundHoldDuration = 1, isEliminated = False\<rparr>])"
  by code_simp

section \<open>Timers and phases\<close>

text \<open>
  C7. The claim: a live countdown timer implies phase \<open>PreCountdown\<close>, in every reachable
  room. The code breaks it. Two players finish a round (\<open>endRoundOnServer\<close> schedules
  \<open>startNewRound\<close> three seconds later) and both hold again within those three seconds,
  which \<open>playerHolding\<close> accepts in phase \<open>RoundEnded\<close>: the five-second countdown starts.
  Then the scheduled \<open>startNewRound\<close> fires and sets the phase to \<open>Waiting\<close> without
  cancelling the countdown interval, which \<open>gameEnded\<close>, \<open>checkAllReleasedOnServer\<close> and the
  leave and disconnect handlers all do before they change the phase. The first state is
  the room just before the timeout fires, the second the room after it.
\<close>

theorem countdown_timer_outlives_phase:
  "map_option view (play ''a'' ''A'' 60 3
      ([JoinRoom ''b'' ''B'', PlayerHolding ''a'', PlayerHolding ''b''] @
       replicate 5 CountdownTick @
       [RoundTick, PlayerReleased ''a'', PlayerReleased ''b'',
        PlayerHolding ''a'', PlayerHolding ''b''])) =
     Some (PreCountdown, True, False, 1,
       [\<lparr>id_sock = ''a'', name = ''A'', time = 59, tokens = 1, isHoldingButton = True,
          hasOptedOut = False, roundHoldDuration = 0, isEliminated = False\<rparr>,
        \<lparr>id_sock = ''b'', name = ''B'', time = 59, tokens = 1, isHoldingButton = True,
          hasOptedOut = False, roundHoldDuration = 0, isEliminated = False\<rparr>]) \<and>
   map_option view (play ''a'' ''A'' 60 3
      ([JoinRoom ''b'' ''B'', PlayerHolding ''a'', PlayerHolding ''b''] @
       replicate 5 CountdownTick @
       [RoundTick, PlayerReleased ''a'', PlayerReleased ''b'',
        PlayerHolding ''a'', PlayerHolding ''b'', StartNewRoundTimeout])) =
     Some (Waiting, True, False, 0,
       [\<lparr>id_sock = ''a'', name = ''A'', time = 59, tokens = 1, isHoldingButton = False,
          hasOptedOut = False, roundHoldDuration = 0, isEliminated = False\<rparr>,
        \<lparr>id_sock = ''b'', name = ''B'', time = 59, tokens = 1, isHoldingButton = False,
          hasOptedOut = False, roundHoldDuration = 0, isEliminated = False\<rparr>])"
  by code_simp

text \<open>
  A bidding interval whose handle is overwritten. The scheduled \<open>startNewRound\<close> fires
  during the bidding phase of the next round and sets the phase to \<open>Waiting\<close> with the
  bidding interval still live; the players hold again, and at the end of the countdown
  \<open>handlePreRoundEndOnServer\<close> assigns a new interval to \<open>roundTimerIntervalId\<close>. When the
  round is resolved, \<open>clearGameIntervals\<close> cancels the new interval only: the first one
  still ticks (the last event of the second run).
\<close>

lemma overwritten_round_interval:
  "map_option timers (play ''a'' ''A'' 60 3
      ([JoinRoom ''b'' ''B'', PlayerHolding ''a'', PlayerHolding ''b''] @
       replicate 5 CountdownTick @
       [RoundTick, PlayerReleased ''a'', PlayerReleased ''b'',
        PlayerHolding ''a'', PlayerHolding ''b''] @
       replicate 5 CountdownTick @
       [StartNewRoundTimeout, PlayerHolding ''a'', PlayerHolding ''b''] @
       replicate 5 CountdownTick)) = Some (InRound, False, True, 0, 1) \<and>
   map_option timers (play ''a'' ''A'' 60 3
      ([JoinRoom ''b'' ''B'', PlayerHolding ''a'', PlayerHolding ''b''] @
       replicate 5 CountdownTick @
       [RoundTick, PlayerReleased ''a'', PlayerReleased ''b'',
        PlayerHolding ''a'', PlayerHolding ''b''] @
       replicate 5 CountdownTick @
       [StartNewRoundTimeout, PlayerHolding ''a'', PlayerHolding ''b''] @
       replicate 5 CountdownTick @
       [PlayerReleased ''a'', PlayerReleased ''b'', RoundTick])) =
     Some (RoundEnded, False, False, 0, 1)"
  by code_simp

end
